theory Spec2Isabelle
  imports Complex_Main "HOL-Library.Sublist"
begin

section \<open>Strings and numbers of the host language\<close>

text \<open>
  A string of the program is a list of code units. A \<^typ>\<open>char\<close> stands for one code
  unit. Times in milliseconds, sizes in pixels and counts are integers of the logic:
  they stay far below \<open>2^53\<close>, where the numbers of the language are exact. The numbers
  of the chart data, which the program adds and compares, have a section of their own.
\<close>

definition digit_char :: "nat \<Rightarrow> char" where
  "digit_char d =
     (if d = 0 then CHR ''0'' else if d = 1 then CHR ''1'' else if d = 2 then CHR ''2''
      else if d = 3 then CHR ''3'' else if d = 4 then CHR ''4'' else if d = 5 then CHR ''5''
      else if d = 6 then CHR ''6'' else if d = 7 then CHR ''7'' else if d = 8 then CHR ''8''
      else CHR ''9'')"

text \<open>\<open>String(n)\<close> for a non-negative integer: its decimal digits.\<close>

function string_of_nat :: "nat \<Rightarrow> string" where
  "string_of_nat n =
     (if n < 10 then [digit_char n]
      else string_of_nat (n div 10) @ [digit_char (n mod 10)])"
  by pat_completeness auto
termination
  by (relation "measure (\<lambda>n. n)") auto

declare string_of_nat.simps [simp del]

text \<open>\<open>String(i)\<close> for an integer.\<close>

definition string_of_int :: "int \<Rightarrow> string" where
  "string_of_int i =
     (if i < 0 then CHR ''-'' # string_of_nat (nat (- i)) else string_of_nat (nat i))"

text \<open>
  The character class \<open>[a-z0-9]\<close> under the flag \<open>i\<close> (no flag \<open>u\<close>): the ASCII
  letters of both cases and the ASCII digits.
\<close>

definition is_alnum :: "char \<Rightarrow> bool" where
  "is_alnum c =
     (let n = (of_char c :: nat)
      in (97 \<le> n \<and> n \<le> 122) \<or> (65 \<le> n \<and> n \<le> 90) \<or> (48 \<le> n \<and> n \<le> 57))"

text \<open>
  \<open>s.replace(/[C]/g, r)\<close> for a one-character class \<open>C\<close>: every code unit of the class
  becomes the replacement string, the others stay.
\<close>

definition replace_all :: "(char \<Rightarrow> bool) \<Rightarrow> string \<Rightarrow> string \<Rightarrow> string" where
  "replace_all in_class r s = concat (map (\<lambda>c. if in_class c then r else [c]) s)"

section \<open>Export: names of downloaded files\<close>

text \<open>
  \<open>downloadPdf(blob, filename = "chart-export")\<close> and \<open>downloadChartAsImage(dataUrl, title)\<close>
  of chart-print-service.ts. The model returns the \<open>download\<close> attribute given to the
  link; the second argument is the value of \<open>Date.now()\<close>.
\<close>

definition downloadPdf :: "string option \<Rightarrow> nat \<Rightarrow> string" where
  "downloadPdf filename now =
     (let filename' = (case filename of None \<Rightarrow> ''chart-export'' | Some f \<Rightarrow> f)
      in replace_all (\<lambda>c. \<not> is_alnum c) ''_'' filename' @ ''_'' @ string_of_nat now @ ''.pdf'')"

definition downloadChartAsImage :: "string \<Rightarrow> nat \<Rightarrow> string" where
  "downloadChartAsImage title now =
     replace_all (\<lambda>c. \<not> is_alnum c) ''_'' title @ ''_'' @ string_of_nat now @ ''.png''"

text \<open>
  The sanitisation as the specification words it: the characters outside
  \<open>[a-z0-9]\<close> (either case) are stripped.
\<close>

definition strip_non_alnum :: "string \<Rightarrow> string" where
  "strip_non_alnum title = filter is_alnum title"

text \<open>What the code does instead: such a character becomes an underscore.\<close>

definition underscore_non_alnum :: "string \<Rightarrow> string" where
  "underscore_non_alnum title = map (\<lambda>c. if is_alnum c then c else CHR ''_'') title"

section \<open>Document composer: the legend of the professional layout\<close>

text \<open>
  The legend loop of \<open>generateProfessionalChartPdf\<close> (chart-print-service.ts):
  \<^verbatim>\<open>
  const itemsPerColumn = Math.ceil(legendData.length / legendColumns);
  for (let i = 0; i < legendData.length; i++) {
    const columnIndex = Math.floor(i / itemsPerColumn);
    const rowIndex = i % itemsPerColumn;
  \<close>
  \<open>legendColumns\<close> is a column count, a natural number here (a negative or fractional
  count is outside the model). With zero columns the quotient is \<open>Infinity\<close>, the value
  \<open>None\<close> below: every item then gets column 0 and its own index as row. The loop runs
  only for a non-empty legend, so \<open>itemsPerColumn\<close> is positive whenever it divides.
\<close>

definition itemsPerColumn :: "nat \<Rightarrow> nat \<Rightarrow> nat option" where
  "itemsPerColumn n c = (if c = 0 then None else Some (nat \<lceil>real n / real c\<rceil>))"

definition columnIndex :: "nat option \<Rightarrow> nat \<Rightarrow> nat" where
  "columnIndex ipc i = (case ipc of None \<Rightarrow> 0 | Some k \<Rightarrow> i div k)"

definition rowIndex :: "nat option \<Rightarrow> nat \<Rightarrow> nat" where
  "rowIndex ipc i = (case ipc of None \<Rightarrow> i | Some k \<Rightarrow> i mod k)"

definition legend_cells :: "nat \<Rightarrow> nat \<Rightarrow> (nat \<times> nat) list" where
  "legend_cells n c =
     (let ipc = itemsPerColumn n c
      in map (\<lambda>i. (columnIndex ipc i, rowIndex ipc i)) [0..<n])"

text \<open>The number of legend items drawn in column \<open>col\<close>.\<close>

definition items_in_column :: "nat \<Rightarrow> nat \<Rightarrow> nat \<Rightarrow> nat" where
  "items_in_column n c col = length (filter (\<lambda>cell. fst cell = col) (legend_cells n c))"

section \<open>Host registry and widget locator\<close>

text \<open>
  A value thrown by the host or the browser: an \<open>Error\<close> with its message, or a value
  that is no \<open>Error\<close>.
\<close>

datatype thrown = Thrown_Error string | Thrown_other

text \<open>
  An entry of \<open>appConfig.widgets\<close>: the fields the locator reads. \<open>manifest_name\<close> is
  \<open>widget.manifest?.name\<close>.
\<close>

record widget =
  uri :: "string option"
  manifest_name :: "string option"
  label :: "string option"

type_synonym widgets = "string \<rightharpoonup> widget"

text \<open>
  \<open>getAppStore().getState()\<close>: it throws, or gives \<open>appConfig?.widgets\<close>
  (\<open>None\<close> when undefined).
\<close>

datatype app_store = Store_throws thrown | Store "widgets option"

text \<open>\<open>toLowerCase\<close> on the ASCII letters; other code units stay.\<close>

definition to_lower_char :: "char \<Rightarrow> char" where
  "to_lower_char c =
     (case map_of (zip ''ABCDEFGHIJKLMNOPQRSTUVWXYZ'' ''abcdefghijklmnopqrstuvwxyz'') c of
        None \<Rightarrow> c
      | Some l \<Rightarrow> l)"

definition toLowerCase :: "string \<Rightarrow> string" where
  "toLowerCase s = map to_lower_char s"

text \<open>\<open>s.includes(sub)\<close>; \<open>s.startsWith(p)\<close> is \<^const>\<open>prefix\<close> \<open>p s\<close>.\<close>

fun str_includes :: "string \<Rightarrow> string \<Rightarrow> bool" where
  "str_includes [] sub = (sub = [])"
| "str_includes (c # s) sub = (prefix sub (c # s) \<or> str_includes s sub)"

text \<open>
  \<open>isChartWidgetAvailable\<close> of widget-utils.ts: the whole body is in a \<open>try\<close> whose
  \<open>catch\<close> returns false.
\<close>

definition widget_utils_isChartWidgetAvailable :: "app_store \<Rightarrow> string \<Rightarrow> bool" where
  "widget_utils_isChartWidgetAvailable st chartWidgetId =
     (case st of
        Store_throws e \<Rightarrow> False
      | Store None \<Rightarrow> False
      | Store (Some ws) \<Rightarrow>
          if chartWidgetId = [] then False
          else
            let manifestName =
                  (case ws chartWidgetId of
                     None \<Rightarrow> []
                   | Some w \<Rightarrow> (case manifest_name w of None \<Rightarrow> [] | Some n \<Rightarrow> toLowerCase n))
            in manifestName = ''chart'' \<or> prefix ''chart'' manifestName \<or>
               str_includes manifestName ''chartwidget'')"

text \<open>
  \<open>isChartWidgetAvailable\<close> of chart-print-service.ts: no \<open>try\<close>, so a throwing store
  propagates; the result is the truthiness of \<open>widget && widget.uri?.includes("chart")\<close>.
\<close>

definition isChartWidgetAvailable :: "app_store \<Rightarrow> string \<Rightarrow> thrown + bool" where
  "isChartWidgetAvailable st chartWidgetId =
     (if chartWidgetId = [] then Inr False
      else case st of
        Store_throws e \<Rightarrow> Inl e
      | Store None \<Rightarrow> Inr False
      | Store (Some ws) \<Rightarrow>
          (case ws chartWidgetId of
             None \<Rightarrow> Inr False
           | Some w \<Rightarrow> (case uri w of None \<Rightarrow> Inr False | Some u \<Rightarrow> Inr (str_includes u ''chart''))))"

text \<open>
  \<open>getChartWidgetInfo\<close> of chart-print-service.ts: the entry of the widget, or null;
  a throwing store propagates unless the identifier is empty.
\<close>

definition getChartWidgetInfo :: "app_store \<Rightarrow> string \<Rightarrow> thrown + widget option" where
  "getChartWidgetInfo st chartWidgetId =
     (if chartWidgetId = [] then Inr None
      else case st of
        Store_throws e \<Rightarrow> Inl e
      | Store None \<Rightarrow> Inr None
      | Store (Some ws) \<Rightarrow> Inr (ws chartWidgetId))"

text \<open>
  The chart-type predicate as the specification words it: the manifest tag is
  \<open>chart\<close> or begins with it.
\<close>

definition spec_chart_tag :: "string \<Rightarrow> bool" where
  "spec_chart_tag tag = (tag = ''chart'' \<or> prefix ''chart'' tag)"

section \<open>The live document\<close>

text \<open>
  A DOM element is known by its identity. The document is read through the calls the
  locator makes: \<open>document.contains\<close>, \<open>document.body.contains\<close>,
  \<open>document.querySelector\<close> (which throws on a selector it cannot parse),
  \<open>document.querySelectorAll("[data-widgetid]")\<close> with the attribute of each match,
  \<open>element.querySelector\<close> and \<open>element.parentElement\<close>.
\<close>

type_synonym element = nat

record dom =
  doc_contains :: "element \<Rightarrow> bool"
  body_contains :: "element \<Rightarrow> bool"
  query_selector :: "string \<Rightarrow> thrown + element option"
  query_widget_elements :: "(element \<times> string) list"
  element_query :: "element \<Rightarrow> string \<Rightarrow> element option"
  parent_element :: "element \<Rightarrow> element option"

section \<open>Cache layer\<close>

record elem_entry =
  el_element :: element
  el_timestamp :: int

record capture_result =
  success :: bool
  dataUrl :: "string option"
  res_width :: "nat option"
  res_height :: "nat option"
  error :: "string option"

record cap_entry =
  cap_result :: capture_result
  cap_timestamp :: int

text \<open>
  The module-level state: the two \<open>Map\<close>s, keyed by chart identifier. \<open>raster_calls\<close>
  is no variable of the program: it counts the calls of \<open>htmlToCanvas\<close> made so far, to
  tell which calls rasterise.
\<close>

record world =
  chartElementCache :: "string \<rightharpoonup> elem_entry"
  captureCache :: "string \<rightharpoonup> cap_entry"
  raster_calls :: nat

definition ELEMENT_CACHE_TTL :: int where
  "ELEMENT_CACHE_TTL = 30000"

definition CAPTURE_CACHE_TTL :: int where
  "CAPTURE_CACHE_TTL = 5000"

text \<open>cache.ts: \<open>getCachedElement\<close>, \<open>setCachedElement\<close>; the clock is \<open>Date.now()\<close>.\<close>

definition getCachedElement :: "world \<Rightarrow> int \<Rightarrow> string \<Rightarrow> element option" where
  "getCachedElement w now chartWidgetId =
     (case chartElementCache w chartWidgetId of
        None \<Rightarrow> None
      | Some cached \<Rightarrow>
          if now - el_timestamp cached < ELEMENT_CACHE_TTL then Some (el_element cached)
          else None)"

definition setCachedElement :: "world \<Rightarrow> int \<Rightarrow> string \<Rightarrow> element \<Rightarrow> world" where
  "setCachedElement w now chartWidgetId e =
     w\<lparr>chartElementCache :=
         (chartElementCache w)(chartWidgetId \<mapsto> \<lparr>el_element = e, el_timestamp = now\<rparr>)\<rparr>"

section \<open>Widget locator: the DOM element of a chart\<close>

definition dq :: char where
  "dq = CHR 0x22"

definition primarySelectors :: "string \<Rightarrow> string list" where
  "primarySelectors chartWidgetId =
     [''[data-widgetid='' @ [dq] @ chartWidgetId @ [dq] @ '']'',
      ''[data-widget-id='' @ [dq] @ chartWidgetId @ [dq] @ '']'',
      ''#widget-'' @ chartWidgetId]"

definition secondarySelectors :: "string \<Rightarrow> string list" where
  "secondarySelectors chartWidgetId =
     [''#'' @ chartWidgetId,
      ''.widget-'' @ chartWidgetId,
      ''[id*='' @ [dq] @ chartWidgetId @ [dq] @ ''] .jimu-widget'']"

text \<open>
  The loop over a list of selectors; a selector that throws is skipped
  (\<open>catch (e) {}\<close>), as one that matches nothing.
\<close>

fun first_match :: "dom \<Rightarrow> string list \<Rightarrow> element option" where
  "first_match d [] = None"
| "first_match d (selector # rest) =
     (case query_selector d selector of
        Inr (Some e) \<Rightarrow> Some e
      | _ \<Rightarrow> first_match d rest)"

text \<open>The loop over \<open>querySelectorAll("[data-widgetid]")\<close>.\<close>

fun find_by_attribute :: "(element \<times> string) list \<Rightarrow> string \<Rightarrow> element option" where
  "find_by_attribute [] chartWidgetId = None"
| "find_by_attribute ((e, a) # rest) chartWidgetId =
     (if a = chartWidgetId then Some e else find_by_attribute rest chartWidgetId)"

text \<open>The part of \<open>getChartElement\<close> (chart-print-service.ts) after the cache read.\<close>

definition lookupChartElement :: "world \<Rightarrow> dom \<Rightarrow> int \<Rightarrow> string \<Rightarrow> element option \<times> world" where
  "lookupChartElement w d now chartWidgetId =
     (case first_match d (primarySelectors chartWidgetId) of
        Some e \<Rightarrow> (Some e, setCachedElement w now chartWidgetId e)
      | None \<Rightarrow>
          (case first_match d (secondarySelectors chartWidgetId) of
             Some e \<Rightarrow> (Some e, setCachedElement w now chartWidgetId e)
           | None \<Rightarrow>
               (case find_by_attribute (query_widget_elements d) chartWidgetId of
                  Some e \<Rightarrow> (Some e, setCachedElement w now chartWidgetId e)
                | None \<Rightarrow> (None, w))))"

text \<open>\<open>getChartElement\<close> of chart-print-service.ts.\<close>

definition getChartElement :: "world \<Rightarrow> dom \<Rightarrow> int \<Rightarrow> string \<Rightarrow> element option \<times> world" where
  "getChartElement w d now chartWidgetId =
     (if chartWidgetId = [] then (None, w)
      else
        case chartElementCache w chartWidgetId of
          None \<Rightarrow> lookupChartElement w d now chartWidgetId
        | Some cached \<Rightarrow>
            if now - el_timestamp cached < ELEMENT_CACHE_TTL then
              if doc_contains d (el_element cached) then (Some (el_element cached), w)
              else
                lookupChartElement
                  (w\<lparr>chartElementCache := (chartElementCache w)(chartWidgetId := None)\<rparr>)
                  d now chartWidgetId
            else lookupChartElement w d now chartWidgetId)"

text \<open>
  \<open>getChartElement\<close> of widget-utils.ts. The first available of the five container
  heuristics is taken, else the widget container itself.
\<close>

definition chartContainerOf :: "dom \<Rightarrow> element \<Rightarrow> element" where
  "chartContainerOf d widgetContainer =
     (case element_query d widgetContainer ''.chart-container'' of
        Some e \<Rightarrow> e
      | None \<Rightarrow>
     (case element_query d widgetContainer
             ''arcgis-charts-web-component, arcgis-charts, [class*='arcgis-chart']'' of
        Some e \<Rightarrow> e
      | None \<Rightarrow>
     (case element_query d widgetContainer (''[class*='' @ [dq] @ ''chart'' @ [dq] @ '']'') of
        Some e \<Rightarrow> e
      | None \<Rightarrow>
     (case Option.bind (element_query d widgetContainer ''canvas'') (parent_element d) of
        Some e \<Rightarrow> e
      | None \<Rightarrow>
     (case Option.bind (element_query d widgetContainer ''svg'') (parent_element d) of
        Some e \<Rightarrow> e
      | None \<Rightarrow> widgetContainer)))))"

definition widget_utils_getChartElement ::
  "world \<Rightarrow> dom \<Rightarrow> int \<Rightarrow> string \<Rightarrow> (thrown + element option) \<times> world" where
  "widget_utils_getChartElement w d now chartWidgetId =
     (case getCachedElement w now chartWidgetId of
        Some cached \<Rightarrow>
          if body_contains d cached then (Inr (Some cached), w)
          else
            (case query_selector d (''[data-widgetid='' @ [dq] @ chartWidgetId @ [dq] @ '']'') of
               Inl e \<Rightarrow> (Inl e, w)
             | Inr None \<Rightarrow> (Inr None, w)
             | Inr (Some widgetContainer) \<Rightarrow>
                 (Inr (Some (chartContainerOf d widgetContainer)),
                  setCachedElement w now chartWidgetId (chartContainerOf d widgetContainer)))
      | None \<Rightarrow>
          (case query_selector d (''[data-widgetid='' @ [dq] @ chartWidgetId @ [dq] @ '']'') of
             Inl e \<Rightarrow> (Inl e, w)
           | Inr None \<Rightarrow> (Inr None, w)
           | Inr (Some widgetContainer) \<Rightarrow>
               (Inr (Some (chartContainerOf d widgetContainer)),
                setCachedElement w now chartWidgetId (chartContainerOf d widgetContainer))))"

text \<open>A document in which nothing is mounted.\<close>

definition empty_dom :: dom where
  "empty_dom =
     \<lparr>doc_contains = (\<lambda>e. False), body_contains = (\<lambda>e. False),
      query_selector = (\<lambda>s. Inr None), query_widget_elements = [],
      element_query = (\<lambda>e s. None), parent_element = (\<lambda>e. None)\<rparr>"

text \<open>
  cache.ts: \<open>getCachedCapture\<close>, \<open>setCachedCapture\<close>; \<open>cleanExpiredCache\<close> (both files),
  \<open>invalidateChartCache\<close> and \<open>cleanupChartPrintResources\<close> (chart-print-service.ts),
  \<open>clearAllCaches\<close> (cache.ts). The canvas pool holds no data a claim reads and is left
  out of the state.
\<close>

definition getCachedCapture :: "world \<Rightarrow> int \<Rightarrow> string \<Rightarrow> capture_result option" where
  "getCachedCapture w now chartWidgetId =
     (case captureCache w chartWidgetId of
        None \<Rightarrow> None
      | Some cached \<Rightarrow>
          if now - cap_timestamp cached < CAPTURE_CACHE_TTL then Some (cap_result cached)
          else None)"

definition setCachedCapture :: "world \<Rightarrow> int \<Rightarrow> string \<Rightarrow> capture_result \<Rightarrow> world" where
  "setCachedCapture w now chartWidgetId r =
     w\<lparr>captureCache := (captureCache w)(chartWidgetId \<mapsto> \<lparr>cap_result = r, cap_timestamp = now\<rparr>)\<rparr>"

definition cleanExpiredCache :: "world \<Rightarrow> int \<Rightarrow> world" where
  "cleanExpiredCache w now =
     w\<lparr>chartElementCache :=
         (\<lambda>k. case chartElementCache w k of
                None \<Rightarrow> None
              | Some v \<Rightarrow> if now - el_timestamp v > ELEMENT_CACHE_TTL then None else Some v),
       captureCache :=
         (\<lambda>k. case captureCache w k of
                None \<Rightarrow> None
              | Some v \<Rightarrow> if now - cap_timestamp v > CAPTURE_CACHE_TTL then None else Some v)\<rparr>"

definition invalidateChartCache :: "world \<Rightarrow> string \<Rightarrow> world" where
  "invalidateChartCache w chartWidgetId =
     w\<lparr>chartElementCache := (chartElementCache w)(chartWidgetId := None),
       captureCache := (captureCache w)(chartWidgetId := None)\<rparr>"

definition clearAllCaches :: "world \<Rightarrow> world" where
  "clearAllCaches w = w\<lparr>chartElementCache := Map.empty, captureCache := Map.empty\<rparr>"

text \<open>The state of a freshly loaded module.\<close>

definition initial_world :: world where
  "initial_world = \<lparr>chartElementCache = Map.empty, captureCache = Map.empty, raster_calls = 0\<rparr>"

section \<open>Visual capture engine\<close>

datatype canvas = Canvas (cv_width: nat) (cv_height: nat)

text \<open>The fields of \<open>Partial<ChartPrintOptions>\<close> that the capture reads.\<close>

record capture_options =
  chartSize :: "(nat \<times> nat) option"
  chartBackground :: "string option"

text \<open>
  What the subtree of the chart element gives to \<open>htmlToCanvas\<close>: the rounded size of
  the container's bounding rectangle, the canvases \<open>findAllCanvases\<close> collects (in its
  order, without duplicates), whether a canvas gives a 2D context, what \<open>html2canvas\<close>
  resolves to or rejects with, the bounding rectangles of the \<open>svg\<close> elements, and the
  rejection of the image load of the serialised SVG, if it is rejected.
\<close>

record raster_env =
  container_rect :: "nat \<times> nat"
  found_canvases :: "canvas list"
  context_2d :: bool
  html2canvas_result :: "thrown + canvas"
  svg_rects :: "(nat \<times> nat) list"
  svg_image_rejects :: "thrown option"

definition SUFFICIENT_AREA :: nat where
  "SUFFICIENT_AREA = 200000"

text \<open>The loop of \<open>findLargestCanvas\<close>, with its \<open>break\<close>.\<close>

fun largest_canvas_loop :: "canvas list \<Rightarrow> canvas option \<Rightarrow> nat \<Rightarrow> canvas option" where
  "largest_canvas_loop [] largestCanvas maxArea = largestCanvas"
| "largest_canvas_loop (c # cs) largestCanvas maxArea =
     (let area = cv_width c * cv_height c
      in if area > maxArea then
           (if area \<ge> SUFFICIENT_AREA then Some c else largest_canvas_loop cs (Some c) area)
         else largest_canvas_loop cs largestCanvas maxArea)"

definition findLargestCanvas :: "canvas list \<Rightarrow> canvas option" where
  "findLargestCanvas allCanvases = largest_canvas_loop allCanvases None 0"

text \<open>The loop of the SVG fallback that picks the largest \<open>svg\<close> wider and higher than 50.\<close>

fun largest_svg_loop :: "(nat \<times> nat) list \<Rightarrow> (nat \<times> nat) option \<Rightarrow> nat \<Rightarrow> (nat \<times> nat) option" where
  "largest_svg_loop [] chartSvg svgMaxArea = chartSvg"
| "largest_svg_loop ((sw, sh) # rest) chartSvg svgMaxArea =
     (if sw * sh > svgMaxArea \<and> sw > 50 \<and> sh > 50
      then largest_svg_loop rest (Some (sw, sh)) (sw * sh)
      else largest_svg_loop rest chartSvg svgMaxArea)"

definition actualWidth :: "raster_env \<Rightarrow> nat" where
  "actualWidth env = (if fst (container_rect env) = 0 then 400 else fst (container_rect env))"

definition actualHeight :: "raster_env \<Rightarrow> nat" where
  "actualHeight env = (if snd (container_rect env) = 0 then 300 else snd (container_rect env))"

definition targetWidth :: "raster_env \<Rightarrow> capture_options \<Rightarrow> nat" where
  "targetWidth env options =
     (case chartSize options of
        None \<Rightarrow> actualWidth env
      | Some (w, h) \<Rightarrow> if w = 0 then actualWidth env else w)"

definition targetHeight :: "raster_env \<Rightarrow> capture_options \<Rightarrow> nat" where
  "targetHeight env options =
     (case chartSize options of
        None \<Rightarrow> actualHeight env
      | Some (w, h) \<Rightarrow> if h = 0 then actualHeight env else h)"

definition raster_scale :: "raster_env \<Rightarrow> capture_options \<Rightarrow> nat" where
  "raster_scale env options =
     min 2 (max 1 (nat \<lceil>real (targetWidth env options) / real (actualWidth env)\<rceil>))"

text \<open>Technique 1 of \<open>htmlToCanvas\<close>: an existing canvas, as it is or redrawn.\<close>

definition reuseExistingCanvas :: "raster_env \<Rightarrow> capture_options \<Rightarrow> canvas option" where
  "reuseExistingCanvas env options =
     (case findLargestCanvas (found_canvases env) of
        None \<Rightarrow> None
      | Some existingCanvas \<Rightarrow>
          if cv_width existingCanvas > 100 \<and> cv_height existingCanvas > 100 then
            if abs (int (cv_width existingCanvas) - int (targetWidth env options)) < 50 \<and>
               abs (int (cv_height existingCanvas) - int (targetHeight env options)) < 50
            then Some existingCanvas
            else if context_2d env
              then Some (Canvas (targetWidth env options) (targetHeight env options))
              else None
          else None)"

text \<open>Technique 2: \<open>html2canvas\<close> on the container, resampled when the size is off.\<close>

definition rasterizeContainer :: "raster_env \<Rightarrow> capture_options \<Rightarrow> thrown + canvas" where
  "rasterizeContainer env options =
     (case html2canvas_result env of
        Inl e \<Rightarrow> Inl e
      | Inr canvas \<Rightarrow>
          if (abs (int (cv_width canvas) - int (targetWidth env options * raster_scale env options)) > 10 \<or>
              abs (int (cv_height canvas) - int (targetHeight env options * raster_scale env options)) > 10)
             \<and> context_2d env
          then Inr (Canvas (targetWidth env options) (targetHeight env options))
          else Inr canvas)"

text \<open>
  Technique 3: the largest \<open>svg\<close>, drawn through an image. A rejected image load is
  thrown to the \<open>catch\<close> of \<open>htmlToCanvas\<close>.
\<close>

definition svgFallback :: "raster_env \<Rightarrow> capture_options \<Rightarrow> thrown + canvas option" where
  "svgFallback env options =
     (case largest_svg_loop (svg_rects env) None 0 of
        None \<Rightarrow> Inr None
      | Some chartSvg \<Rightarrow>
          (case svg_image_rejects env of
             Some e \<Rightarrow> Inl e
           | None \<Rightarrow>
               if context_2d env
               then Inr (Some (Canvas (targetWidth env options) (targetHeight env options)))
               else Inr None))"

text \<open>\<open>htmlToCanvas\<close>: the three techniques in order; its \<open>catch\<close> turns a throw into null.\<close>

definition htmlToCanvas :: "raster_env \<Rightarrow> capture_options \<Rightarrow> canvas option" where
  "htmlToCanvas env options =
     (case reuseExistingCanvas env options of
        Some c \<Rightarrow> Some c
      | None \<Rightarrow>
          (case rasterizeContainer env options of
             Inr c \<Rightarrow> Some c
           | Inl html2canvasError \<Rightarrow>
               (case svgFallback env options of
                  Inl e \<Rightarrow> None
                | Inr r \<Rightarrow> r)))"

text \<open>
  What one call of \<open>captureChartAsImage\<close> meets: the clock at the cache read, during
  the element lookup and at the cache write, the host store, the document, the
  rasterisation of each element, and what \<open>canvas.toDataURL\<close> gives or throws.
\<close>

record capture_env =
  now_read :: int
  now_lookup :: int
  now_write :: int
  env_store :: app_store
  env_dom :: dom
  env_raster :: "element \<Rightarrow> raster_env"
  env_to_data_url :: "thrown + string"

definition capture_failure :: "string \<Rightarrow> capture_result" where
  "capture_failure msg =
     \<lparr>success = False, dataUrl = None, res_width = None, res_height = None, error = Some msg\<rparr>"

definition capture_success :: "string \<Rightarrow> canvas \<Rightarrow> capture_result" where
  "capture_success url canvas =
     \<lparr>success = True, dataUrl = Some url, res_width = Some (cv_width canvas),
      res_height = Some (cv_height canvas), error = None\<rparr>"

text \<open>The messages; \<open>CHR 0xE9\<close> and \<open>CHR 0xC9\<close> are the e and E with acute accent.\<close>

definition msg_widget_not_found :: "string \<Rightarrow> string" where
  "msg_widget_not_found chartWidgetId = ''Widget Chart non trouv'' @ [CHR 0xE9] @ '': '' @ chartWidgetId"

definition msg_widget_not_in_appConfig :: "string \<Rightarrow> string" where
  "msg_widget_not_in_appConfig chartWidgetId =
     ''Widget Chart non trouv'' @ [CHR 0xE9] @ '' dans appConfig: '' @ chartWidgetId"

definition msg_element_not_found :: "string \<Rightarrow> string" where
  "msg_element_not_found chartWidgetId =
     [CHR 0xC9] @ ''l'' @ [CHR 0xE9] @ ''ment DOM du Chart non trouv'' @ [CHR 0xE9] @ '': '' @ chartWidgetId"

definition msg_capture_failed :: string where
  "msg_capture_failed = [CHR 0xC9] @ ''chec de la capture du diagramme''"

definition msg_capture_returned_null :: string where
  "msg_capture_returned_null =
     [CHR 0xC9] @ ''chec de la capture du diagramme - htmlToCanvas a retourn'' @ [CHR 0xE9] @ '' null''"

definition message_of :: "thrown \<Rightarrow> string" where
  "message_of e =
     (case e of Thrown_Error m \<Rightarrow> m | Thrown_other \<Rightarrow> ''Erreur inconnue lors de la capture'')"

text \<open>
  The \<open>try\<close> block of \<open>captureChartAsImage\<close> in chart-print-service.ts. The first
  component is the returned result, or what was thrown; the second the state left.
\<close>

definition captureChartAsImage_try ::
  "world \<Rightarrow> capture_env \<Rightarrow> string \<Rightarrow> capture_options \<Rightarrow> bool \<Rightarrow> (thrown + capture_result) \<times> world" where
  "captureChartAsImage_try w env chartWidgetId options forceRefresh =
     (case (if forceRefresh then None else getCachedCapture w (now_read env) chartWidgetId) of
        Some cached \<Rightarrow> (Inr cached, w)
      | None \<Rightarrow>
          (case isChartWidgetAvailable (env_store env) chartWidgetId of
             Inl e \<Rightarrow> (Inl e, w)
           | Inr False \<Rightarrow> (Inr (capture_failure (msg_widget_not_found chartWidgetId)), w)
           | Inr True \<Rightarrow>
               (case getChartElement w (env_dom env) (now_lookup env) chartWidgetId of
                  (None, w1) \<Rightarrow> (Inr (capture_failure (msg_element_not_found chartWidgetId)), w1)
                | (Some chartElement, w1) \<Rightarrow>
                    (let w2 = w1\<lparr>raster_calls := Suc (raster_calls w1)\<rparr>
                     in case htmlToCanvas (env_raster env chartElement) options of
                          None \<Rightarrow> (Inr (capture_failure msg_capture_failed), w2)
                        | Some canvas \<Rightarrow>
                            (case env_to_data_url env of
                               Inl e \<Rightarrow> (Inl e, w2)
                             | Inr url \<Rightarrow>
                                 (Inr (capture_success url canvas),
                                  setCachedCapture w2 (now_write env) chartWidgetId
                                    (capture_success url canvas)))))))"

text \<open>
  \<open>captureChartAsImage\<close> of chart-print-service.ts: the \<open>try\<close> block under its
  \<open>catch\<close>. \<open>Inl\<close> would be a rejected promise.
\<close>

definition captureChartAsImage ::
  "world \<Rightarrow> capture_env \<Rightarrow> string \<Rightarrow> capture_options \<Rightarrow> bool \<Rightarrow> (thrown + capture_result) \<times> world" where
  "captureChartAsImage w env chartWidgetId options forceRefresh =
     (case captureChartAsImage_try w env chartWidgetId options forceRefresh of
        (Inl e, w') \<Rightarrow> (Inr (capture_failure (message_of e)), w')
      | (Inr r, w') \<Rightarrow> (Inr r, w'))"

text \<open>The same for capture.ts, over widget-utils.ts and cache.ts.\<close>

definition capture_captureChartAsImage_try ::
  "world \<Rightarrow> capture_env \<Rightarrow> string \<Rightarrow> capture_options \<Rightarrow> bool \<Rightarrow> (thrown + capture_result) \<times> world" where
  "capture_captureChartAsImage_try w env chartWidgetId options forceRefresh =
     (case (if forceRefresh then None else getCachedCapture w (now_read env) chartWidgetId) of
        Some cached \<Rightarrow> (Inr cached, w)
      | None \<Rightarrow>
          if \<not> widget_utils_isChartWidgetAvailable (env_store env) chartWidgetId
          then (Inr (capture_failure (msg_widget_not_in_appConfig chartWidgetId)), w)
          else
            (case widget_utils_getChartElement w (env_dom env) (now_lookup env) chartWidgetId of
               (Inl e, w1) \<Rightarrow> (Inl e, w1)
             | (Inr None, w1) \<Rightarrow> (Inr (capture_failure (msg_element_not_found chartWidgetId)), w1)
             | (Inr (Some chartElement), w1) \<Rightarrow>
                 (let w2 = w1\<lparr>raster_calls := Suc (raster_calls w1)\<rparr>
                  in case htmlToCanvas (env_raster env chartElement) options of
                       None \<Rightarrow> (Inr (capture_failure msg_capture_returned_null), w2)
                     | Some canvas \<Rightarrow>
                         (case env_to_data_url env of
                            Inl e \<Rightarrow> (Inl e, w2)
                          | Inr url \<Rightarrow>
                              (Inr (capture_success url canvas),
                               setCachedCapture w2 (now_write env) chartWidgetId
                                 (capture_success url canvas))))))"

definition capture_captureChartAsImage ::
  "world \<Rightarrow> capture_env \<Rightarrow> string \<Rightarrow> capture_options \<Rightarrow> bool \<Rightarrow> (thrown + capture_result) \<times> world" where
  "capture_captureChartAsImage w env chartWidgetId options forceRefresh =
     (case capture_captureChartAsImage_try w env chartWidgetId options forceRefresh of
        (Inl e, w') \<Rightarrow> (Inr (capture_failure (message_of e)), w')
      | (Inr r, w') \<Rightarrow> (Inr r, w'))"

text \<open>All three techniques fail on what an element gives.\<close>

definition all_techniques_fail :: "raster_env \<Rightarrow> capture_options \<Rightarrow> bool" where
  "all_techniques_fail env options =
     (reuseExistingCanvas env options = None \<and>
      isl (rasterizeContainer env options) \<and>
      (case svgFallback env options of Inl e \<Rightarrow> True | Inr r \<Rightarrow> r = None))"

text \<open>
  The outcomes of a call: served from the cache; refused before any rasterisation;
  rasterised without a canvas; rasterised, but \<open>toDataURL\<close> threw; or captured and
  cached.
\<close>

definition served_from_cache :: "world \<Rightarrow> capture_env \<Rightarrow> string \<Rightarrow> bool \<Rightarrow> capture_result \<Rightarrow> world \<Rightarrow> bool" where
  "served_from_cache w env i forceRefresh r w' =
     (\<not> forceRefresh \<and> getCachedCapture w (now_read env) i = Some r \<and> w' = w)"

definition refused_unrasterised :: "world \<Rightarrow> capture_result \<Rightarrow> world \<Rightarrow> bool" where
  "refused_unrasterised w r w' =
     (\<not> success r \<and> captureCache w' = captureCache w \<and> raster_calls w' = raster_calls w)"

definition rasterised_nothing :: "world \<Rightarrow> capture_env \<Rightarrow> capture_options \<Rightarrow> string \<Rightarrow> capture_result \<Rightarrow> world \<Rightarrow> bool" where
  "rasterised_nothing w env options msg r w' =
     (r = capture_failure msg \<and> captureCache w' = captureCache w \<and>
      raster_calls w' = Suc (raster_calls w) \<and>
      (\<exists>el. htmlToCanvas (env_raster env el) options = None))"

definition data_url_threw :: "world \<Rightarrow> capture_env \<Rightarrow> capture_options \<Rightarrow> capture_result \<Rightarrow> world \<Rightarrow> bool" where
  "data_url_threw w env options r w' =
     (\<not> success r \<and> captureCache w' = captureCache w \<and>
      raster_calls w' = Suc (raster_calls w) \<and>
      (\<exists>el c. htmlToCanvas (env_raster env el) options = Some c))"

definition captured_fresh :: "world \<Rightarrow> capture_env \<Rightarrow> capture_options \<Rightarrow> string \<Rightarrow> capture_result \<Rightarrow> world \<Rightarrow> bool" where
  "captured_fresh w env options i r w' =
     (success r \<and>
      (\<exists>el c url. htmlToCanvas (env_raster env el) options = Some c \<and> r = capture_success url c) \<and>
      captureCache w' = (captureCache w)(i \<mapsto> \<lparr>cap_result = r, cap_timestamp = now_write env\<rparr>) \<and>
      raster_calls w' = Suc (raster_calls w))"

text \<open>Every cached capture is a successful one.\<close>

definition cache_holds_successes :: "world \<Rightarrow> bool" where
  "cache_holds_successes w = (\<forall>k c. captureCache w k = Some c \<longrightarrow> success (cap_result c))"

text \<open>
  The states the module of chart-print-service.ts can be in: the initial one, and
  what its functions that touch the caches leave.
\<close>

inductive reachable :: "world \<Rightarrow> bool" where
  reachable_initial: "reachable initial_world"
| reachable_capture: "reachable w \<Longrightarrow> reachable (snd (captureChartAsImage w env i options forceRefresh))"
| reachable_element: "reachable w \<Longrightarrow> reachable (snd (getChartElement w d now i))"
| reachable_sweep: "reachable w \<Longrightarrow> reachable (cleanExpiredCache w now)"
| reachable_invalidate: "reachable w \<Longrightarrow> reachable (invalidateChartCache w i)"
| reachable_cleanup: "reachable w \<Longrightarrow> reachable (clearAllCaches w)"

text \<open>The same for the modules capture.ts, widget-utils.ts and cache.ts.\<close>

inductive capture_reachable :: "world \<Rightarrow> bool" where
  capture_reachable_initial: "capture_reachable initial_world"
| capture_reachable_capture:
    "capture_reachable w \<Longrightarrow>
     capture_reachable (snd (capture_captureChartAsImage w env i options forceRefresh))"
| capture_reachable_element:
    "capture_reachable w \<Longrightarrow> capture_reachable (snd (widget_utils_getChartElement w d now i))"
| capture_reachable_sweep: "capture_reachable w \<Longrightarrow> capture_reachable (cleanExpiredCache w now)"
| capture_reachable_clear: "capture_reachable w \<Longrightarrow> capture_reachable (clearAllCaches w)"

text \<open>
  Example inputs: a registry with the chart widget \<open>w1\<close>; a document in which every
  selector finds element 1; an element showing one canvas of 800 by 600; an element on
  which every technique fails.
\<close>

definition example_store :: app_store where
  "example_store =
     Store (Some [''w1'' \<mapsto> \<lparr>uri = Some ''widgets/common/chart/'', manifest_name = Some ''chart'',
                               label = Some ''Ventes''\<rparr>])"

definition example_dom :: dom where
  "example_dom =
     \<lparr>doc_contains = (\<lambda>e. True), body_contains = (\<lambda>e. True),
      query_selector = (\<lambda>s. Inr (Some 1)), query_widget_elements = [(1, ''w1'')],
      element_query = (\<lambda>e s. None), parent_element = (\<lambda>e. None)\<rparr>"

definition example_raster :: raster_env where
  "example_raster =
     \<lparr>container_rect = (800, 600), found_canvases = [Canvas 800 600], context_2d = True,
      html2canvas_result = Inr (Canvas 800 600), svg_rects = [], svg_image_rejects = None\<rparr>"

definition failing_raster :: raster_env where
  "failing_raster =
     \<lparr>container_rect = (800, 600), found_canvases = [], context_2d = True,
      html2canvas_result = Inl (Thrown_Error ''tainted''), svg_rects = [(40, 40)],
      svg_image_rejects = None\<rparr>"

definition example_env :: "int \<Rightarrow> raster_env \<Rightarrow> capture_env" where
  "example_env now r =
     \<lparr>now_read = now, now_lookup = now, now_write = now + 40, env_store = example_store,
      env_dom = example_dom, env_raster = (\<lambda>e. r),
      env_to_data_url = Inr ''data:image/png;base64,iVBORw0KGgo=''\<rparr>"

definition no_options :: capture_options where
  "no_options = \<lparr>chartSize = None, chartBackground = None\<rparr>"

text \<open>
  The state after a first call for \<open>w1\<close> on which every technique has failed, in
  chart-print-service.ts and (\<open>True\<close>) in capture.ts.
\<close>

definition after_failure :: "bool \<Rightarrow> world" where
  "after_failure capture_ts =
     (if capture_ts
      then snd (capture_captureChartAsImage initial_world (example_env 0 failing_raster) ''w1''
                  no_options False)
      else snd (captureChartAsImage initial_world (example_env 0 failing_raster) ''w1''
                  no_options False))"

section \<open>Numbers of the host language\<close>

text \<open>
  A number of the language: a finite IEEE 754 binary64 value, written as the real
  number it denotes, an infinity, or \<open>NaN\<close>. The type also holds the reals that are no
  binary64 values; \<open>is_double\<close> below tells them apart, and every operation rounds its
  result to a binary64 value. The sign of a zero is left out: the code below never
  observes it (a \<open>Map\<close> takes both zeros for one key, \<open>x || 0\<close> takes both to 0,
  \<open>String\<close> prints both as \<open>0\<close>).
\<close>

datatype number = Fin real | PInf | NInf | NaN

text \<open>The number of binary digits of a natural number.\<close>

fun bits :: "nat \<Rightarrow> nat" where
  "bits n = (if n = 0 then 0 else Suc (bits (n div 2)))"

declare bits.simps [simp del]

text \<open>The binary exponent of a real \<open>x \<noteq> 0\<close>: the \<open>e\<close> with \<open>2^e \<le> |x| < 2^(e+1)\<close>.\<close>

definition expo :: "real \<Rightarrow> int" where
  "expo x = (if 1 \<le> \<bar>x\<bar> then int (bits (nat \<lfloor>\<bar>x\<bar>\<rfloor>)) - 1
             else - int (bits (nat (\<lceil>1 / \<bar>x\<bar>\<rceil> - 1))))"

text \<open>
  The spacing of the binary64 values around \<open>x\<close>: 53 significant bits, and from the
  exponent -1022 downwards the fixed spacing \<open>2^-1074\<close> of the subnormal values.
\<close>

definition quantum :: "real \<Rightarrow> real" where
  "quantum x = 2 powi (max (expo x) (- 1022) - 52)"

text \<open>The nearest integer, a tie going to the even one.\<close>

definition round_even :: "real \<Rightarrow> int" where
  "round_even y =
     (let f = \<lfloor>y\<rfloor>; d = y - of_int f
      in if d < 1 / 2 then f else if 1 / 2 < d then f + 1 else if even f then f else f + 1)"

text \<open>
  The result of an arithmetic operation whose exact result is \<open>x\<close> (IEEE 754, round to
  nearest, ties to even): the nearest binary64 value, an infinity from \<open>2^1024\<close> on.
\<close>

definition round_double :: "real \<Rightarrow> number" where
  "round_double x =
     (if x = 0 then Fin 0
      else let y = of_int (round_even (x / quantum x)) * quantum x
           in if 2 ^ 1024 \<le> \<bar>y\<bar> then (if 0 < x then PInf else NInf) else Fin y)"

text \<open>\<open>x + y\<close>, \<open>- x\<close>, \<open>x - y\<close> and \<open>x > 0\<close> on numbers.\<close>

fun number_add :: "number \<Rightarrow> number \<Rightarrow> number" where
  "number_add (Fin a) (Fin b) = round_double (a + b)"
| "number_add NaN y = NaN"
| "number_add x NaN = NaN"
| "number_add PInf NInf = NaN"
| "number_add NInf PInf = NaN"
| "number_add PInf y = PInf"
| "number_add NInf y = NInf"
| "number_add x PInf = PInf"
| "number_add x NInf = NInf"

fun negate :: "number \<Rightarrow> number" where
  "negate (Fin a) = Fin (- a)"
| "negate PInf = NInf"
| "negate NInf = PInf"
| "negate NaN = NaN"

definition subtract :: "number \<Rightarrow> number \<Rightarrow> number" where
  "subtract x y = number_add x (negate y)"

fun positive :: "number \<Rightarrow> bool" where
  "positive (Fin a) = (0 < a)"
| "positive PInf = True"
| "positive NInf = False"
| "positive NaN = False"

text \<open>
  A number other than \<open>NaN\<close> that the language can hold: an infinity, or a real that
  rounding leaves as it is. The order of such numbers.
\<close>

fun is_double :: "number \<Rightarrow> bool" where
  "is_double (Fin a) = (round_double a = Fin a)"
| "is_double PInf = True"
| "is_double NInf = True"
| "is_double NaN = False"


text \<open>
  \<open>x || 0\<close> for a number \<open>x\<close>: \<open>NaN\<close> and 0 are the numbers that count as false.
\<close>

definition or_zero :: "number \<Rightarrow> number" where
  "or_zero x = (if x = NaN \<or> x = Fin 0 then Fin 0 else x)"

text \<open>
  \<open>String(x)\<close> for a number \<open>x\<close>: the decimal digits of an integer below \<open>10^21\<close>; for
  the other finite numbers the shortest decimal form that reads back as \<open>x\<close>, which
  is a parameter \<open>ns\<close> of the model.
\<close>

definition numberToString :: "(real \<Rightarrow> string) \<Rightarrow> number \<Rightarrow> string" where
  "numberToString ns x =
     (case x of
        Fin a \<Rightarrow> if of_int \<lfloor>a\<rfloor> = a \<and> \<bar>a\<bar> < 10 ^ 21 then string_of_int \<lfloor>a\<rfloor> else ns a
      | PInf \<Rightarrow> ''Infinity''
      | NInf \<Rightarrow> ''-Infinity''
      | NaN \<Rightarrow> ''NaN'')"

section \<open>Data extractor: values and records\<close>

text \<open>
  A field value of a data record, as the attributes of a feature are: a number, a
  string, \<open>null\<close> or \<open>undefined\<close>.
\<close>

datatype jsval = JNum number | JStr string | JNull | JUndefined

text \<open>\<open>record.getData()\<close>: the fields in the order of \<open>Object.keys\<close>.\<close>

type_synonym data_record = "(string \<times> jsval) list"

definition field :: "data_record \<Rightarrow> string option \<Rightarrow> jsval" where
  "field data name =
     (case name of
        None \<Rightarrow> JUndefined
      | Some f \<Rightarrow> (case map_of data f of None \<Rightarrow> JUndefined | Some v \<Rightarrow> v))"

record ChartDataRecord =
  category :: jsval
  cd_value :: number
  cd_label :: "string option"
  cd_color :: "string option"

text \<open>
  \<open>parseFloat\<close> of a string is a parameter \<open>pf\<close> of the model; on a number, which it
  reads back from its decimal form, it gives the number, on \<open>null\<close> and \<open>undefined\<close>
  \<open>NaN\<close>.
\<close>

definition parseFloat :: "(string \<Rightarrow> number) \<Rightarrow> jsval \<Rightarrow> number" where
  "parseFloat pf v =
     (case v of
        JNum n \<Rightarrow> n
      | JStr s \<Rightarrow> pf s
      | JNull \<Rightarrow> NaN
      | JUndefined \<Rightarrow> NaN)"

text \<open>\<open>String(category)\<close>.\<close>

definition String :: "(real \<Rightarrow> string) \<Rightarrow> jsval \<Rightarrow> string" where
  "String ns v =
     (case v of
        JNum n \<Rightarrow> numberToString ns n
      | JStr s \<Rightarrow> s
      | JNull \<Rightarrow> ''null''
      | JUndefined \<Rightarrow> ''undefined'')"

text \<open>
  A \<open>Map\<close> keeps its keys in the order of their first insertion: an association list
  with \<open>get\<close> as \<^const>\<open>map_of\<close> and \<open>set\<close> as follows.
\<close>

fun map_set :: "('k \<times> 'v) list \<Rightarrow> 'k \<Rightarrow> 'v \<Rightarrow> ('k \<times> 'v) list" where
  "map_set [] k v = [(k, v)]"
| "map_set ((k', v') # m) k v = (if k' = k then (k, v) # m else (k', v') # map_set m k v)"

section \<open>Data extractor: the query-engine strategy\<close>

text \<open>The loop of \<open>extractChartData\<close> over the records (lines 632 to 642).\<close>

fun aggregate ::
  "(string \<Rightarrow> number) \<Rightarrow> string option \<Rightarrow> string option \<Rightarrow> data_record list \<Rightarrow>
   (jsval \<times> number) list \<Rightarrow> (jsval \<times> number) list" where
  "aggregate pf actualCategoryField actualValueField [] aggregatedData = aggregatedData"
| "aggregate pf actualCategoryField actualValueField (data # rest) aggregatedData =
     (let category' = field data actualCategoryField;
          value' = or_zero (parseFloat pf (field data actualValueField))
      in if category' \<noteq> JUndefined \<and> category' \<noteq> JNull then
           aggregate pf actualCategoryField actualValueField rest
             (map_set aggregatedData category'
                (number_add
                   (case map_of aggregatedData category' of
                      None \<Rightarrow> Fin 0
                    | Some existingValue \<Rightarrow> or_zero existingValue)
                   value'))
         else aggregate pf actualCategoryField actualValueField rest aggregatedData)"

text \<open>
  Modelled from the spec: \<open>localeCompare\<close>, a function of the host that is not in the
  sources, as the lexicographic comparison of the code units.
\<close>

fun localeCompare :: "string \<Rightarrow> string \<Rightarrow> int" where
  "localeCompare [] [] = 0"
| "localeCompare [] (y # ys) = - 1"
| "localeCompare (x # xs) [] = 1"
| "localeCompare (x # xs) (y # ys) =
     (if (of_char x :: nat) < of_char y then - 1
      else if (of_char y :: nat) < of_char x then 1
      else localeCompare xs ys)"

text \<open>The comparator given to \<open>chartData.sort\<close>.\<close>

definition compare_category ::
  "(real \<Rightarrow> string) \<Rightarrow> ChartDataRecord \<Rightarrow> ChartDataRecord \<Rightarrow> number" where
  "compare_category ns a b =
     (case (category a, category b) of
        (JNum x, JNum y) \<Rightarrow> subtract x y
      | _ \<Rightarrow> Fin (of_int (localeCompare (String ns (category a)) (String ns (category b)))))"

text \<open>
  \<open>Array.prototype.sort\<close> is stable, and on a comparator that orders the elements
  consistently it yields the one sorted arrangement, the one insertion sort yields. It
  reads a result of the comparator by its sign, \<open>NaN\<close> as 0. On other comparators the
  language leaves the order to the engine; nothing below depends on it there.
\<close>

fun insert_by :: "('a \<Rightarrow> 'a \<Rightarrow> number) \<Rightarrow> 'a \<Rightarrow> 'a list \<Rightarrow> 'a list" where
  "insert_by cmp x [] = [x]"
| "insert_by cmp x (y # ys) = (if \<not> positive (cmp x y) then x # y # ys else y # insert_by cmp x ys)"

fun array_sort :: "('a \<Rightarrow> 'a \<Rightarrow> number) \<Rightarrow> 'a list \<Rightarrow> 'a list" where
  "array_sort cmp [] = []"
| "array_sort cmp (x # xs) = insert_by cmp x (array_sort cmp xs)"

text \<open>Lines 632 to 659: aggregation, conversion of the \<open>Map\<close> to an array, sort.\<close>

definition chartData_of_records ::
  "(string \<Rightarrow> number) \<Rightarrow> (real \<Rightarrow> string) \<Rightarrow> string option \<Rightarrow> string option \<Rightarrow> data_record list \<Rightarrow>
   ChartDataRecord list" where
  "chartData_of_records pf ns actualCategoryField actualValueField allRecords =
     array_sort (compare_category ns)
       (map (\<lambda>(c, v). \<lparr>category = c, cd_value = v, cd_label = Some (String ns c), cd_color = None\<rparr>)
          (aggregate pf actualCategoryField actualValueField allRecords []))"

text \<open>
  The detection of the fields on the first record (lines 603 to 630). The pattern
  \<open>/year|annee|date|category|categorie|name|nom|label/i\<close> is a search for one of the
  words in the lower-cased name.
\<close>

definition category_pattern :: "string \<Rightarrow> bool" where
  "category_pattern f =
     list_ex (\<lambda>p. str_includes (toLowerCase f) p)
       [''year'', ''annee'', ''date'', ''category'', ''categorie'', ''name'', ''nom'', ''label'']"

definition nth_field :: "string list \<Rightarrow> nat \<Rightarrow> string option" where
  "nth_field fs n = (if n < length fs then Some (fs ! n) else None)"

definition or_else :: "string option \<Rightarrow> string option \<Rightarrow> string option" where
  "or_else a b = (case a of None \<Rightarrow> b | Some s \<Rightarrow> if s = [] then b else Some s)"

definition is_JNum :: "jsval \<Rightarrow> bool" where
  "is_JNum v = (case v of JNum n \<Rightarrow> True | _ \<Rightarrow> False)"


definition detect_category_field :: "string option \<Rightarrow> data_record \<Rightarrow> string option" where
  "detect_category_field categoryField sampleData =
     (let sampleFields = map fst sampleData
      in if (case categoryField of None \<Rightarrow> True | Some f \<Rightarrow> f = [] \<or> f \<notin> set sampleFields)
         then or_else (find category_pattern sampleFields) (nth_field sampleFields 0)
         else categoryField)"

definition detect_value_field ::
  "(string \<Rightarrow> number) \<Rightarrow> string option \<Rightarrow> data_record \<Rightarrow> string option" where
  "detect_value_field pf valueField sampleData =
     (let sampleFields = map fst sampleData
      in if (case valueField of None \<Rightarrow> True | Some f \<Rightarrow> f = [] \<or> f \<notin> set sampleFields)
         then or_else
                (find (\<lambda>f. is_JNum (field sampleData (Some f)) \<or>
                           parseFloat pf (field sampleData (Some f)) \<noteq> NaN) sampleFields)
                (nth_field sampleFields 1)
         else valueField)"

text \<open>
  The result of an extraction. The title and the type of the chart, copied from the
  configuration, are left out.
\<close>

record extraction_result =
  ex_success :: bool
  ex_data :: "ChartDataRecord list option"
  ex_categoryField :: "string option"
  ex_valueField :: "string option"
  ex_totalRecords :: "nat option"
  ex_error :: "string option"

definition extraction_failure :: "string \<Rightarrow> extraction_result" where
  "extraction_failure msg =
     \<lparr>ex_success = False, ex_data = None, ex_categoryField = None, ex_valueField = None,
      ex_totalRecords = None, ex_error = Some msg\<rparr>"

text \<open>
  \<open>extractChartData\<close> from the point where the records have been retrieved (line 587):
  the declared field names and the records are its inputs; the message of the empty
  case names the data sources tried.
\<close>

definition extractChartData ::
  "(string \<Rightarrow> number) \<Rightarrow> (real \<Rightarrow> string) \<Rightarrow> string option \<Rightarrow> string option \<Rightarrow> string \<Rightarrow>
   data_record list \<Rightarrow> extraction_result" where
  "extractChartData pf ns categoryField valueField sources allRecords =
     (case allRecords of
        [] \<Rightarrow> extraction_failure (''Aucun enregistrement trouv'' @ [CHR 0xE9] @ ''. '' @ sources)
      | sampleData # rest \<Rightarrow>
          (let actualCategoryField = detect_category_field categoryField sampleData;
               actualValueField = detect_value_field pf valueField sampleData
           in \<lparr>ex_success = True,
               ex_data = Some (chartData_of_records pf ns actualCategoryField actualValueField allRecords),
               ex_categoryField = actualCategoryField,
               ex_valueField = actualValueField,
               ex_totalRecords = Some (length allRecords),
               ex_error = None\<rparr>))"


definition has_category :: "jsval \<Rightarrow> bool" where
  "has_category v = (v \<noteq> JUndefined \<and> v \<noteq> JNull)"


definition raw_value :: "(string \<Rightarrow> number) \<Rightarrow> string option \<Rightarrow> data_record \<Rightarrow> number" where
  "raw_value pf vf r = or_zero (parseFloat pf (field r vf))"












text \<open>\<open>aggregatedData.get(k) || 0\<close>.\<close>

definition lookup0 :: "(jsval \<times> number) list \<Rightarrow> jsval \<Rightarrow> number" where
  "lookup0 m k = (case map_of m k of None \<Rightarrow> Fin 0 | Some e \<Rightarrow> or_zero e)"

text \<open>The chart record of an entry of the \<open>Map\<close>.\<close>

definition mk_record :: "(real \<Rightarrow> string) \<Rightarrow> jsval \<times> number \<Rightarrow> ChartDataRecord" where
  "mk_record ns p =
     \<lparr>category = fst p, cd_value = snd p, cd_label = Some (String ns (fst p)), cd_color = None\<rparr>"

text \<open>
  Example inputs: a \<open>parseFloat\<close> and a printer of fractions that are never asked; the
  records of the scenario; records with a \<open>null\<close> and with mixed categories; records
  the sum of which rounds; records the first of which lacks the value field.
\<close>

definition parse_nothing :: "string \<Rightarrow> number" where
  "parse_nothing s = NaN"

definition print_nothing :: "real \<Rightarrow> string" where
  "print_nothing x = []"

definition sales_records :: "data_record list" where
  "sales_records =
     [[(''year'', JNum (Fin 2020)), (''sales'', JNum (Fin 10))],
      [(''year'', JNum (Fin 2020)), (''sales'', JNum (Fin 5))],
      [(''year'', JNum (Fin 2021)), (''sales'', JNum (Fin 7))]]"




section \<open>Data extractor: the DOM-parsing strategy\<close>

text \<open>
  What the chart element shows to \<open>extractChartDataFromDOM\<close>. A legend item: the trimmed
  text of its label element (if it has one), its own trimmed text, the computed
  background colour of its colour element (if it has one) and the trimmed text of its
  value element (if it has one). The legend items inside the shadow root of an
  \<open>arcgis-charts\<close> element, if there is such a root: their trimmed texts. An element
  with data attributes: \<open>data-category\<close>, \<open>data-label\<close>, \<open>aria-label\<close>, \<open>data-value\<close>.
\<close>

record legend_item =
  li_label_text :: "string option"
  li_item_text :: string
  li_swatch_background :: "string option"
  li_value_text :: "string option"

record data_element =
  de_data_category :: "string option"
  de_data_label :: "string option"
  de_aria_label :: "string option"
  de_data_value :: "string option"

record chart_dom =
  legendItems :: "legend_item list"
  shadowLegend :: "string list option"
  dataElements :: "data_element list"

definition CHART_COLORS :: "string list" where
  "CHART_COLORS =
     [''#5A9BD5'', ''#70AD47'', ''#ED7D31'', ''#FFC000'', ''#44546A'', ''#9E480E'', ''#997300'',
      ''#636363'', ''#264478'', ''#43682B'', ''#FF6B6B'', ''#4ECDC4'', ''#A855F7'', ''#EC4899'',
      ''#14B8A6'', ''#F97316'']"

text \<open>\<open>a || b\<close> on strings that may be undefined: the first that is a non-empty string.\<close>

definition text_or :: "string option \<Rightarrow> string \<Rightarrow> string" where
  "text_or a b = (case a of None \<Rightarrow> b | Some s \<Rightarrow> if s = [] then b else s)"

definition legend_label :: "legend_item \<Rightarrow> string" where
  "legend_label item = text_or (li_label_text item) (text_or (Some (li_item_text item)) [])"

definition legend_color :: "legend_item \<Rightarrow> string" where
  "legend_color item =
     (case li_swatch_background item of
        None \<Rightarrow> ''#5A9BD5''
      | Some bg \<Rightarrow> if bg \<noteq> [] \<and> bg \<noteq> ''rgba(0, 0, 0, 0)'' then bg else ''#5A9BD5'')"

text \<open>The class \<open>[0-9.-]\<close> of the value text.\<close>

definition is_value_char :: "char \<Rightarrow> bool" where
  "is_value_char c =
     (let n = (of_char c :: nat) in (48 \<le> n \<and> n \<le> 57) \<or> c = CHR ''.'' \<or> c = CHR ''-'')"

definition legend_value :: "(string \<Rightarrow> number) \<Rightarrow> legend_item \<Rightarrow> number" where
  "legend_value pf item =
     or_zero (parseFloat pf
       (JStr (replace_all (\<lambda>c. \<not> is_value_char c) [] (text_or (li_value_text item) []))))"

text \<open>Method 1: one record for each legend item with a label.\<close>

definition legend_records :: "(string \<Rightarrow> number) \<Rightarrow> legend_item list \<Rightarrow> ChartDataRecord list" where
  "legend_records pf items =
     map (\<lambda>item. \<lparr>category = JStr (legend_label item), cd_value = legend_value pf item,
                   cd_label = Some (legend_label item), cd_color = Some (legend_color item)\<rparr>)
       (filter (\<lambda>item. legend_label item \<noteq> []) items)"

text \<open>Method 2: the legend items of the shadow root, with their index in the list.\<close>

definition shadow_records :: "string list \<Rightarrow> ChartDataRecord list" where
  "shadow_records texts =
     map (\<lambda>(index, t). \<lparr>category = JStr t, cd_value = Fin 0, cd_label = Some t,
                        cd_color = Some (CHART_COLORS ! (index mod length CHART_COLORS))\<rparr>)
       (filter (\<lambda>(index, t). t \<noteq> []) (zip [0..<length texts] texts))"

text \<open>Method 3: the elements with data attributes; the value may be \<open>NaN\<close>.\<close>

definition data_element_category :: "data_element \<Rightarrow> string" where
  "data_element_category el =
     text_or (de_data_category el) (text_or (de_data_label el) (text_or (de_aria_label el) []))"

definition data_element_records ::
  "(string \<Rightarrow> number) \<Rightarrow> data_element list \<Rightarrow> ChartDataRecord list" where
  "data_element_records pf els =
     map (\<lambda>(index, el).
            \<lparr>category = JStr (data_element_category el),
             cd_value = parseFloat pf (JStr (text_or (de_data_value el) ''0'')),
             cd_label = Some (data_element_category el),
             cd_color = Some (CHART_COLORS ! (index mod length CHART_COLORS))\<rparr>)
       (filter (\<lambda>(index, el). data_element_category el \<noteq> []) (zip [0..<length els] els))"

text \<open>The cascade of the three methods: each runs only while no record has been found.\<close>

definition dom_chartData :: "(string \<Rightarrow> number) \<Rightarrow> chart_dom \<Rightarrow> ChartDataRecord list" where
  "dom_chartData pf cd =
     (let m1 = legend_records pf (legendItems cd);
          m2 = (if m1 = [] then (case shadowLegend cd of None \<Rightarrow> [] | Some texts \<Rightarrow> shadow_records texts)
                else m1)
      in if m2 = [] then data_element_records pf (dataElements cd) else m2)"

definition msg_chart_element_not_found :: "string \<Rightarrow> string" where
  "msg_chart_element_not_found chartWidgetId =
     [CHR 0xC9] @ ''l'' @ [CHR 0xE9] @ ''ment Chart non trouv'' @ [CHR 0xE9] @ '' dans le DOM: '' @ chartWidgetId"

definition msg_dom_extraction_failed :: string where
  "msg_dom_extraction_failed =
     ''Impossible d'' @ [CHR 0x27] @ ''extraire les donn'' @ [CHR 0xE9] @ ''es depuis le DOM''"

definition extraction_message_of :: "thrown \<Rightarrow> string" where
  "extraction_message_of e = (case e of Thrown_Error m \<Rightarrow> m | Thrown_other \<Rightarrow> ''Erreur inconnue'')"

text \<open>
  \<open>extractChartDataFromDOM\<close>: the element is looked up (which may write the element
  cache), the registry is read for the title (which throws when the store does; the
  \<open>catch\<close> reports it), then the cascade runs on what the element shows.
\<close>

definition extractChartDataFromDOM ::
  "(string \<Rightarrow> number) \<Rightarrow> world \<Rightarrow> dom \<Rightarrow> int \<Rightarrow> app_store \<Rightarrow> (element \<Rightarrow> chart_dom) \<Rightarrow> string \<Rightarrow>
   extraction_result \<times> world" where
  "extractChartDataFromDOM pf w d now st view chartWidgetId =
     (case getChartElement w d now chartWidgetId of
        (None, w1) \<Rightarrow> (extraction_failure (msg_chart_element_not_found chartWidgetId), w1)
      | (Some chartElement, w1) \<Rightarrow>
          (case getChartWidgetInfo st chartWidgetId of
             Inl e \<Rightarrow> (extraction_failure (extraction_message_of e), w1)
           | Inr widgetInfo \<Rightarrow>
               (let chartData = dom_chartData pf (view chartElement)
                in if chartData = [] then (extraction_failure msg_dom_extraction_failed, w1)
                   else (\<lparr>ex_success = True, ex_data = Some chartData, ex_categoryField = None,
                           ex_valueField = None, ex_totalRecords = Some (length chartData),
                           ex_error = None\<rparr>, w1))))"

section \<open>Data extractor: the combined extraction\<close>

text \<open>The test \<open>result.success && result.data && result.data.length > 0\<close>.\<close>

definition has_data :: "extraction_result \<Rightarrow> bool" where
  "has_data r = (ex_success r \<and> (case ex_data r of None \<Rightarrow> False | Some d \<Rightarrow> d \<noteq> []))"

definition msg_nothing_extracted :: "string option \<Rightarrow> string option \<Rightarrow> string" where
  "msg_nothing_extracted outputDs useDs =
     ''Impossible d'' @ [CHR 0x27] @ ''extraire les donn'' @ [CHR 0xE9] @ ''es. OutputDS: '' @
     text_or outputDs ''aucun'' @ '', UseDS: '' @ text_or useDs ''aucun'' @
     ''. V'' @ [CHR 0xE9] @ ''rifiez que le chart est correctement initialis'' @ [CHR 0xE9] @
     '' et que les donn'' @ [CHR 0xE9] @ ''es sont charg'' @ [CHR 0xE9] @ ''es.''"

definition msg_not_configured :: string where
  "msg_not_configured = ''Widget Chart non trouv'' @ [CHR 0xE9] @ '' ou non configur'' @ [CHR 0xE9]"

text \<open>
  \<open>extractChartDataComplete\<close>: \<open>queryResult\<close> is what \<open>extractChartData\<close> returned; the
  identifiers of the data sources of the widget go into the message. The last read of
  the registry is outside any \<open>try\<close>.
\<close>

definition extractChartDataComplete ::
  "(string \<Rightarrow> number) \<Rightarrow> world \<Rightarrow> dom \<Rightarrow> int \<Rightarrow> app_store \<Rightarrow> (element \<Rightarrow> chart_dom) \<Rightarrow>
   extraction_result \<Rightarrow> string option \<Rightarrow> string option \<Rightarrow> string \<Rightarrow>
   (thrown + extraction_result) \<times> world" where
  "extractChartDataComplete pf w d now st view queryResult outputDs useDs chartWidgetId =
     (if has_data queryResult then (Inr queryResult, w)
      else
        case extractChartDataFromDOM pf w d now st view chartWidgetId of
          (domResult, w1) \<Rightarrow>
            if has_data domResult then (Inr domResult, w1)
            else
              (case getChartWidgetInfo st chartWidgetId of
                 Inl e \<Rightarrow> (Inl e, w1)
               | Inr None \<Rightarrow> (Inr (extraction_failure msg_not_configured), w1)
               | Inr (Some widgetInfo) \<Rightarrow>
                   (Inr (extraction_failure (msg_nothing_extracted outputDs useDs)), w1)))"

text \<open>
  The categories of a result, and what the DOM strategy harvests as labels: the
  labels of the legend items, else the texts of the shadow legend, else the categories
  of the data elements, the empty ones left out.
\<close>

definition result_categories :: "extraction_result \<Rightarrow> jsval list" where
  "result_categories r = (case ex_data r of None \<Rightarrow> [] | Some d \<Rightarrow> map category d)"

definition harvested_labels :: "chart_dom \<Rightarrow> string list" where
  "harvested_labels cd =
     (let l1 = filter (\<lambda>s. s \<noteq> []) (map legend_label (legendItems cd));
          l2 = (if l1 = [] then (case shadowLegend cd of None \<Rightarrow> []
                                 | Some texts \<Rightarrow> filter (\<lambda>s. s \<noteq> []) texts)
                else l1)
      in if l2 = [] then filter (\<lambda>s. s \<noteq> []) (map data_element_category (dataElements cd)) else l2)"

text \<open>Example: a legend that shows the label \<open>A\<close> twice.\<close>

definition twice_A :: chart_dom where
  "twice_A =
     \<lparr>legendItems =
        [\<lparr>li_label_text = Some ''A'', li_item_text = ''A'', li_swatch_background = None,
          li_value_text = None\<rparr>,
         \<lparr>li_label_text = Some ''A'', li_item_text = ''A'', li_swatch_background = None,
          li_value_text = None\<rparr>],
      shadowLegend = None, dataElements = []\<rparr>"

section \<open>Document composer: the professional layout\<close>

text \<open>
  The options of \<open>generateProfessionalChartPdf\<close> that steer its control flow, after
  the defaults of the destructuring (legend shown, 4 columns, 30000 ms, no forced
  refresh). The number of columns and the timeout are taken to be natural numbers.
  \<open>po_onProgress\<close> tells whether a progress callback is supplied; the callback is taken
  to return normally.
\<close>

record professional_options =
  po_showLegend :: bool
  po_legendColumns :: nat
  po_onProgress :: bool
  po_timeout :: nat
  po_forceRefresh :: bool

text \<open>A call \<open>onProgress(stage, progress, message)\<close>.\<close>

type_synonym progress_event = "string \<times> int \<times> string"

text \<open>
  The composed document, as far as the claims read it: the image embedded by
  \<open>addImage\<close> (\<open>None\<close>: the text "Graphique non disponible" in its place) and the cell
  (column, row) of each legend item. Title, frame and footer are not modelled.
\<close>

record pdf_blob =
  pdf_image :: "string option"
  pdf_legend :: "(nat \<times> nat) list"

text \<open>
  What one call meets. The timer of the timeout is started first; two progress
  notifications, each yielding to the event loop for an animation frame and a timer
  task, come before the capture is started. \<open>pe_timer_fired\<close>: the timer has fired,
  rejecting the timeout promise, before \<open>Promise.race\<close> is called. \<open>pe_capture_first\<close>:
  of a capture that waits for \<open>html2canvas\<close> or for the image of the SVG, and a timer
  that has not fired when the race is called, the capture settles first.
  \<open>pe_jspdf_throws\<close>: what jsPDF throws, if it throws, taken at its first call. The
  rest is what the extraction meets.
\<close>

record pdf_env =
  pe_capture :: capture_env
  pe_timer_fired :: bool
  pe_capture_first :: bool
  pe_parseFloat :: "string \<Rightarrow> number"
  pe_now_extract :: int
  pe_view :: "element \<Rightarrow> chart_dom"
  pe_query_result :: extraction_result
  pe_outputDs :: "string option"
  pe_useDs :: "string option"
  pe_jspdf_throws :: "thrown option"

text \<open>The capture options the composer passes: 1200 by 800 on white.\<close>

definition professional_capture_options :: capture_options where
  "professional_capture_options = \<lparr>chartSize = Some (1200, 800), chartBackground = Some ''#ffffff''\<rparr>"

definition msg_timeout :: "nat \<Rightarrow> string" where
  "msg_timeout timeout =
     ''Timeout: g'' @ [CHR 0xE9] @ ''n'' @ [CHR 0xE9] @ ''ration PDF d'' @ [CHR 0xE9] @ ''pass'' @
     [CHR 0xE9] @ '' '' @ string_of_nat timeout @ ''ms''"

definition ev_init :: progress_event where
  "ev_init = (''init'', 0, ''Initialisation de la g'' @ [CHR 0xE9] @ ''n'' @ [CHR 0xE9] @ ''ration PDF...'')"

definition ev_capture_start :: progress_event where
  "ev_capture_start = (''capture'', 10, ''Capture du diagramme en cours...'')"

definition ev_capture_done :: progress_event where
  "ev_capture_done = (''capture'', 30, ''Capture termin'' @ [CHR 0xE9] @ ''e'')"

definition ev_data :: progress_event where
  "ev_data = (''data'', 35, ''Extraction des donn'' @ [CHR 0xE9] @ ''es...'')"

definition ev_pdf :: progress_event where
  "ev_pdf = (''pdf'', 45, ''Cr'' @ [CHR 0xE9] @ ''ation du document PDF...'')"

definition ev_image :: progress_event where
  "ev_image = (''image'', 50, ''Traitement de l'' @ [CHR 0x27] @ ''image...'')"

definition ev_image_added :: progress_event where
  "ev_image_added = (''image'', 60, ''Ajout de l'' @ [CHR 0x27] @ ''image au PDF...'')"

definition ev_legend :: progress_event where
  "ev_legend =
     (''legend'', 70, ''G'' @ [CHR 0xE9] @ ''n'' @ [CHR 0xE9] @ ''ration de la l'' @ [CHR 0xE9] @ ''gende...'')"

definition ev_footer :: progress_event where
  "ev_footer = (''footer'', 85, ''Finalisation du document...'')"

definition ev_complete :: progress_event where
  "ev_complete =
     (''complete'', 100, ''PDF g'' @ [CHR 0xE9] @ ''n'' @ [CHR 0xE9] @ ''r'' @ [CHR 0xE9] @ '' avec succ'' @
        [CHR 0xE8] @ ''s!'')"

definition ev_error :: "string \<Rightarrow> progress_event" where
  "ev_error errorMessage = (''error'', - 1, errorMessage)"

text \<open>\<open>notifyProgress\<close>: the callback is called if there is one.\<close>

definition notify :: "professional_options \<Rightarrow> progress_event list \<Rightarrow> progress_event list \<Rightarrow> progress_event list" where
  "notify options evs new = (if po_onProgress options then evs @ new else evs)"

text \<open>The \<open>catch\<close> of \<open>generateProfessionalChartPdf\<close>: the error stage, and null.\<close>

definition pdf_failed ::
  "professional_options \<Rightarrow> progress_event list \<Rightarrow> thrown \<Rightarrow> world \<Rightarrow>
   pdf_blob option \<times> progress_event list \<times> world" where
  "pdf_failed options evs e w = (None, notify options evs [ev_error (extraction_message_of e)], w)"

text \<open>
  The capture promise is pending when \<open>Promise.race\<close> is called exactly when the call of
  \<open>captureChartAsImage\<close> has reached its \<open>await htmlToCanvas\<close>; otherwise the call has
  returned, and the promise is fulfilled, before the race starts.
\<close>

definition capture_pending :: "world \<Rightarrow> pdf_env \<Rightarrow> string \<Rightarrow> professional_options \<Rightarrow> bool" where
  "capture_pending w env chartWidgetId options =
     (raster_calls (snd (captureChartAsImage w (pe_capture env) chartWidgetId
                           professional_capture_options (po_forceRefresh options)))
      \<noteq> raster_calls w)"

text \<open>
  A pending capture gives the event loop a turn only when the first technique of
  \<open>htmlToCanvas\<close>, the reuse of a canvas, has not returned: the other two wait for
  \<open>html2canvas\<close> or for an image. A capture that reuses a canvas is settled by the
  jobs of its promises alone, before any timer can fire.
\<close>

definition capture_yields :: "world \<Rightarrow> pdf_env \<Rightarrow> string \<Rightarrow> bool" where
  "capture_yields w env chartWidgetId =
     (case fst (getChartElement w (env_dom (pe_capture env)) (now_lookup (pe_capture env)) chartWidgetId) of
        None \<Rightarrow> False
      | Some chartElement \<Rightarrow>
          reuseExistingCanvas (env_raster (pe_capture env) chartElement) professional_capture_options = None)"

text \<open>
  \<open>Promise.race([capturePromise, timeoutPromise])\<close>: a promise settled when the race
  is called wins over a later one in the array, so a fulfilled capture wins even over
  a timeout promise that is already rejected; a pending capture loses to a rejected
  timeout promise; of two pending promises the first to settle wins, and the timer can
  be the first only when the capture gives the event loop a turn.
\<close>

definition timeout_wins_race :: "world \<Rightarrow> pdf_env \<Rightarrow> string \<Rightarrow> professional_options \<Rightarrow> bool" where
  "timeout_wins_race w env chartWidgetId options =
     (capture_pending w env chartWidgetId options \<and>
      (pe_timer_fired env \<or> (capture_yields w env chartWidgetId \<and> \<not> pe_capture_first env)))"

text \<open>
  The composition of the document, from the creation of the \<open>jsPDF\<close> object on: the
  image or its placeholder, the legend if it is shown and there is data, the footer.
  With \<open>legendColumns\<close> 0 the width of a column is infinite and the abscissa of the first
  item, 0 times that width, is \<open>NaN\<close>; \<open>rect\<close> of jsPDF, which is not in the sources,
  throws on a coordinate that is not a number, with the message below.
\<close>

definition msg_invalid_rect :: string where
  "msg_invalid_rect = ''Invalid arguments passed to jsPDF.rect''"

definition compose_document ::
  "professional_options \<Rightarrow> pdf_env \<Rightarrow> progress_event list \<Rightarrow> capture_result \<Rightarrow> extraction_result \<Rightarrow>
   world \<Rightarrow> pdf_blob option \<times> progress_event list \<times> world" where
  "compose_document options env evs captureResult dataResult w =
     (case pe_jspdf_throws env of
        Some e \<Rightarrow> pdf_failed options evs e w
      | None \<Rightarrow>
          (let imageData = (case dataUrl captureResult of
                              None \<Rightarrow> None
                            | Some u \<Rightarrow> if u = [] then None else Some u);
               has_image = (success captureResult \<and> imageData \<noteq> None);
               has_legend = (po_showLegend options \<and> has_data dataResult);
               ev3 = notify options evs [ev_image];
               ev4 = (if has_image then notify options ev3 [ev_image_added] else ev3);
               ev5 = (if has_legend then notify options ev4 [ev_legend] else ev4);
               ev6 = notify options ev5 [ev_footer, ev_complete]
           in if has_legend \<and> po_legendColumns options = 0
              then pdf_failed options ev5 (Thrown_Error msg_invalid_rect) w
              else (Some \<lparr>pdf_image = (if has_image then imageData else None),
                           pdf_legend =
                             (if has_legend
                              then legend_cells
                                     (case ex_data dataResult of None \<Rightarrow> 0 | Some d \<Rightarrow> length d)
                                     (po_legendColumns options)
                              else [])\<rparr>,
                    ev6, w)))"

text \<open>
  \<open>generateProfessionalChartPdf\<close>. The state returned is the one left when the capture
  has run to its end, which a lost race does not stop.
\<close>

definition generateProfessionalChartPdf ::
  "world \<Rightarrow> pdf_env \<Rightarrow> string \<Rightarrow> professional_options \<Rightarrow>
   pdf_blob option \<times> progress_event list \<times> world" where
  "generateProfessionalChartPdf w env chartWidgetId options =
     (case captureChartAsImage w (pe_capture env) chartWidgetId professional_capture_options
             (po_forceRefresh options) of
        (capture, w1) \<Rightarrow>
          if timeout_wins_race w env chartWidgetId options
          then pdf_failed options (notify options [] [ev_init, ev_capture_start])
                 (Thrown_Error (msg_timeout (po_timeout options))) w1
          else
            (case capture of
               Inl e \<Rightarrow> pdf_failed options (notify options [] [ev_init, ev_capture_start]) e w1
             | Inr captureResult \<Rightarrow>
                 (case extractChartDataComplete (pe_parseFloat env) w1 (env_dom (pe_capture env))
                         (pe_now_extract env) (env_store (pe_capture env)) (pe_view env)
                         (pe_query_result env) (pe_outputDs env) (pe_useDs env) chartWidgetId of
                    (Inl e, w2) \<Rightarrow>
                      pdf_failed options
                        (notify options [] [ev_init, ev_capture_start, ev_capture_done, ev_data]) e w2
                  | (Inr dataResult, w2) \<Rightarrow>
                      (case getChartWidgetInfo (env_store (pe_capture env)) chartWidgetId of
                         Inl e \<Rightarrow>
                           pdf_failed options
                             (notify options [] [ev_init, ev_capture_start, ev_capture_done, ev_data])
                             e w2
                       | Inr widgetInfo \<Rightarrow>
                           compose_document options env
                             (notify options []
                                [ev_init, ev_capture_start, ev_capture_done, ev_data, ev_pdf])
                             captureResult dataResult w2))))"

text \<open>
  The hypothesis of C5 as the specification words it: the capture does not resolve
  before the timeout expires. Either the timer fired before the capture was even
  started, or the capture is pending at the race and the timer fires first.
\<close>

definition capture_unresolved_at_expiry :: "world \<Rightarrow> pdf_env \<Rightarrow> string \<Rightarrow> professional_options \<Rightarrow> bool" where
  "capture_unresolved_at_expiry w env chartWidgetId options =
     (pe_timer_fired env \<or>
      (capture_pending w env chartWidgetId options \<and> capture_yields w env chartWidgetId \<and>
       \<not> pe_capture_first env))"

text \<open>
  Example: the state after a capture of \<open>w1\<close> at time 0, and a call with a timeout of
  one millisecond made one second later, whose timer fires during the first
  notifications.
\<close>

definition world_with_capture :: world where
  "world_with_capture =
     snd (captureChartAsImage initial_world (example_env 0 example_raster) ''w1''
            professional_capture_options False)"

definition late_env :: "bool \<Rightarrow> raster_env \<Rightarrow> pdf_env" where
  "late_env fired r =
     \<lparr>pe_capture = example_env 1000 r, pe_timer_fired = fired, pe_capture_first = False,
      pe_parseFloat = parse_nothing, pe_now_extract = 1100, pe_view = (\<lambda>e. twice_A),
      pe_query_result = extraction_failure ''none'', pe_outputDs = None, pe_useDs = None,
      pe_jspdf_throws = None\<rparr>"

definition short_timeout :: "bool \<Rightarrow> professional_options" where
  "short_timeout forceRefresh =
     \<lparr>po_showLegend = True, po_legendColumns = 4, po_onProgress = True, po_timeout = 1,
      po_forceRefresh = forceRefresh\<rparr>"

section \<open>Evaluating decimal strings\<close>

lemma string_of_nat_digit: "n < 10 \<Longrightarrow> string_of_nat n = [digit_char n]"
  by (subst string_of_nat.simps) simp

lemma string_of_nat_step:
  "10 \<le> n \<Longrightarrow> string_of_nat n = string_of_nat (n div 10) @ [digit_char (n mod 10)]"
  by (subst string_of_nat.simps) simp

lemmas string_of_nat_eval = string_of_nat_digit string_of_nat_step digit_char_def

section \<open>Arithmetic of the numbers\<close>

lemma bits_bounds: "0 < n \<Longrightarrow> 2 ^ (bits n - 1) \<le> n \<and> n < 2 ^ bits n"
proof (induction n rule: bits.induct)
  case (1 n)
  show ?case
  proof (cases "n div 2 = 0")
    case True
    then have "n = 1" using 1(2) by linarith
    then show ?thesis by (simp add: bits.simps)
  next
    case False
    then have ih: "2 ^ (bits (n div 2) - 1) \<le> n div 2" "n div 2 < 2 ^ bits (n div 2)"
      using 1 by auto
    have b: "bits n = Suc (bits (n div 2))" using 1(2) by (subst bits.simps) simp
    have p: "0 < bits (n div 2)" using False by (subst bits.simps) simp
    then have "(2::nat) ^ (bits n - 1) = 2 * 2 ^ (bits (n div 2) - 1)"
      unfolding b by (cases "bits (n div 2)") simp_all
    then show ?thesis using ih unfolding b by (simp, linarith)
  qed
qed


lemma bits_pos: "0 < n \<Longrightarrow> 0 < bits n"
  by (subst bits.simps) simp

lemma expo_bounds:
  assumes "x \<noteq> 0"
  shows "2 powi expo x \<le> \<bar>x\<bar>" and "\<bar>x\<bar> < 2 powi (expo x + 1)"
proof -
  have "2 powi expo x \<le> \<bar>x\<bar> \<and> \<bar>x\<bar> < 2 powi (expo x + 1)"
  proof (cases "1 \<le> \<bar>x\<bar>")
    case True
    define n where "n = nat \<lfloor>\<bar>x\<bar>\<rfloor>"
    have f: "1 \<le> \<lfloor>\<bar>x\<bar>\<rfloor>" using True by linarith
    have n: "0 < n" "real n \<le> \<bar>x\<bar>" "\<bar>x\<bar> < real n + 1"
    proof -
      show "0 < n" using f unfolding n_def by simp
      have "real n = of_int \<lfloor>\<bar>x\<bar>\<rfloor>" using f unfolding n_def by simp
      then show "real n \<le> \<bar>x\<bar>" "\<bar>x\<bar> < real n + 1" by linarith+
    qed
    define b where "b = bits n"
    have b: "0 < b" "2 ^ (b - 1) \<le> n" "n < 2 ^ b"
      using bits_bounds[OF n(1)] bits_pos[OF n(1)] unfolding b_def by simp_all
    have e: "expo x = int (b - 1)"
      using True b(1) unfolding expo_def b_def n_def by simp
    have e2: "expo x + 1 = int b"
      using True b(1) unfolding expo_def b_def n_def by simp
    have pw1: "(2::real) powi expo x = 2 ^ (b - 1)"
      by (simp only: e power_int_of_nat)
    have pw2: "(2::real) powi (expo x + 1) = 2 ^ b"
      by (simp only: e2 power_int_of_nat)
    note pw = pw1 pw2
    have "real (2 ^ (b - 1)) \<le> real n" using b(2) by (rule of_nat_mono)
    then have l: "(2::real) ^ (b - 1) \<le> real n" by simp
    have "real (Suc n) \<le> real (2 ^ b)" using b(3) by (intro of_nat_mono) simp
    then have u: "real n + 1 \<le> (2::real) ^ b" by simp
    show ?thesis
      unfolding pw using n l u by linarith
  next
    case False
    define y where "y = 1 / \<bar>x\<bar>"
    have y: "1 < y" "\<bar>x\<bar> = 1 / y" "0 < \<bar>x\<bar>" using False assms unfolding y_def by simp_all
    define m where "m = nat (\<lceil>y\<rceil> - 1)"
    have c: "2 \<le> \<lceil>y\<rceil>" using y(1) by linarith
    have m: "0 < m" "real m < y" "y \<le> real m + 1"
    proof -
      show "0 < m" using c unfolding m_def by simp
      have "real m = of_int \<lceil>y\<rceil> - 1" using c unfolding m_def by simp
      then show "real m < y" "y \<le> real m + 1" by linarith+
    qed
    define b where "b = bits m"
    have b: "0 < b" "2 ^ (b - 1) \<le> m" "m < 2 ^ b"
      using bits_bounds[OF m(1)] bits_pos[OF m(1)] unfolding b_def by simp_all
    have e: "expo x = - int b"
      using False b(1) unfolding expo_def b_def m_def y_def by simp
    have e2: "expo x + 1 = - int (b - 1)"
      using False b(1) unfolding expo_def b_def m_def y_def by simp
    have pw1: "(2::real) powi expo x = 1 / 2 ^ b"
      by (simp only: e power_int_minus_divide power_int_of_nat)
    have pw2: "(2::real) powi (expo x + 1) = 1 / 2 ^ (b - 1)"
      by (simp only: e2 power_int_minus_divide power_int_of_nat)
    note pw = pw1 pw2
    have "real (2 ^ (b - 1)) \<le> real m" using b(2) by (rule of_nat_mono)
    then have l: "(2::real) ^ (b - 1) \<le> real m" by simp
    have "real (Suc m) \<le> real (2 ^ b)" using b(3) by (intro of_nat_mono) simp
    then have u: "real m + 1 \<le> (2::real) ^ b" by simp
    have yb: "y \<le> 2 ^ b" "(2::real) ^ (b - 1) < y" using l u m by linarith+
    have 1: "1 / 2 ^ b \<le> 1 / y"
      using yb(1) y(1) by (intro divide_left_mono) simp_all
    have 2: "1 / y < 1 / 2 ^ (b - 1)"
      using yb(2) y(1) by (intro divide_strict_left_mono) simp_all
    show ?thesis
      unfolding pw y(2) using 1 2 by blast
  qed
  then show "2 powi expo x \<le> \<bar>x\<bar>" and "\<bar>x\<bar> < 2 powi (expo x + 1)" by simp_all
qed

lemma round_even_int: "round_even (of_int k) = k"
  by (simp add: round_even_def)

lemma quantum_pos: "0 < quantum x"
  by (simp add: quantum_def)


lemma round_double_multiple:
  assumes "x = of_int m * quantum x" and "\<bar>x\<bar> < 2 ^ 1024"
  shows "round_double x = Fin x"
proof (cases "x = 0")
  case True
  then show ?thesis by (simp add: round_double_def)
next
  case False
  have q: "quantum x \<noteq> 0" using quantum_pos[of x] by simp
  have "x / quantum x = of_int m"
    using assms(1) q by (metis nonzero_mult_div_cancel_right)
  then have "of_int (round_even (x / quantum x)) * quantum x = x"
    using assms(1) by (simp add: round_even_int)
  then show ?thesis
    using False assms(2) by (simp add: round_double_def Let_def)
qed

lemma expo_int:
  assumes "n \<noteq> 0" and "\<bar>n\<bar> < 2 ^ 53"
  shows "0 \<le> expo (of_int n)" and "expo (of_int n) \<le> 52"
proof -
  let ?x = "of_int n :: real"
  have x: "?x \<noteq> 0" "1 \<le> \<bar>?x\<bar>" "\<bar>?x\<bar> < 2 ^ 53"
  proof -
    show "?x \<noteq> 0" using assms(1) by simp
    have "1 \<le> \<bar>n\<bar>" using assms(1) by simp
    then show "1 \<le> \<bar>?x\<bar>" by (metis of_int_1_le_iff of_int_abs)
    have "(of_int \<bar>n\<bar> :: real) < of_int (2 ^ 53)" using assms(2) by (simp only: of_int_less_iff)
    then show "\<bar>?x\<bar> < 2 ^ 53" by simp
  qed
  note b = expo_bounds[OF x(1)]
  show "0 \<le> expo ?x"
  proof (rule ccontr)
    assume "\<not> 0 \<le> expo ?x"
    then have "expo ?x + 1 \<le> 0" by simp
    then have "(2::real) powi (expo ?x + 1) \<le> 2 powi 0"
      by (intro power_int_increasing) simp_all
    with b(2) x(2) show False by simp
  qed
  show "expo ?x \<le> 52"
  proof (rule ccontr)
    assume "\<not> expo ?x \<le> 52"
    then have "53 \<le> expo ?x" by simp
    then have "(2::real) powi 53 \<le> 2 powi expo ?x"
      by (intro power_int_increasing) simp_all
    moreover have "(2::real) powi 53 = 2 ^ 53"
      using power_int_of_nat[of "2::real" 53] by simp
    ultimately show False using b(1) x(3) by linarith
  qed
qed

lemma round_double_int:
  assumes "\<bar>n\<bar> < 2 ^ 53"
  shows "round_double (of_int n) = Fin (of_int n)"
proof (cases "n = 0")
  case True
  then show ?thesis by (simp add: round_double_def)
next
  case False
  let ?x = "of_int n :: real"
  note e = expo_int[OF False assms]
  define k where "k = nat (52 - expo ?x)"
  have "max (expo ?x) (- 1022) - 52 = - int k"
    using e unfolding k_def by simp
  then have q: "quantum ?x = 1 / 2 ^ k"
    unfolding quantum_def by (simp only: power_int_minus_divide power_int_of_nat)
  have m: "?x = of_int (n * 2 ^ k) * quantum ?x"
    unfolding q by simp
  have "(of_int \<bar>n\<bar> :: real) < of_int (2 ^ 53)" using assms by (simp only: of_int_less_iff)
  then have "\<bar>?x\<bar> < 2 ^ 53" by simp
  moreover have "(2::real) ^ 53 \<le> 2 ^ 1024" by (rule power_increasing) simp_all
  ultimately have "\<bar>?x\<bar> < 2 ^ 1024" by linarith
  with m show ?thesis by (rule round_double_multiple)
qed















text \<open>Integers below \<open>2^53\<close> are held, and added, exactly; beyond them a sum rounds.\<close>

lemma is_double_Ints:
  assumes "a \<in> \<int>" and "\<bar>a\<bar> < 2 ^ 53"
  shows "is_double (Fin a)"
proof -
  from assms(1) obtain m where m: "a = of_int m"
    by (auto elim!: Ints_cases)
  have "(of_int \<bar>m\<bar> :: real) < of_int (2 ^ 53)"
    using assms(2) unfolding m by simp
  then have "\<bar>m\<bar> < 2 ^ 53"
    by (simp only: of_int_less_iff)
  from round_double_int[OF this] show ?thesis
    unfolding m by simp
qed

lemma round_double_Ints:
  assumes "a \<in> \<int>" and "\<bar>a\<bar> < 2 ^ 53"
  shows "round_double a = Fin a"
  using is_double_Ints[OF assms] by simp


section \<open>Properties of the export names\<close>

lemma replace_all_single:
  "replace_all p [r] s = map (\<lambda>c. if p c then r else c) s"
  by (induction s) (simp_all add: replace_all_def)

lemma sanitize_eq_underscore:
  "replace_all (\<lambda>c. \<not> is_alnum c) ''_'' t = underscore_non_alnum t"
  by (simp add: replace_all_single underscore_non_alnum_def cong: map_cong)

lemma underscore_not_alnum: "\<not> is_alnum CHR ''_''"
  by (simp add: is_alnum_def)

lemma strip_underscore_non_alnum:
  "strip_non_alnum (underscore_non_alnum t) = strip_non_alnum t"
  by (induction t) (simp_all add: strip_non_alnum_def underscore_non_alnum_def underscore_not_alnum)

text \<open>
  C7, as the specification states it, fails: for the title \<open>a b\<close> at time 5 the PDF is
  named \<open>a_b_5.pdf\<close>, not \<open>ab_5.pdf\<close>; the space is replaced, not stripped.
\<close>

theorem C7_strip_counterexample:
  "downloadPdf (Some ''a b'') 5 = ''a_b_5.pdf'' \<and>
   downloadPdf (Some ''a b'') 5 \<noteq> strip_non_alnum ''a b'' @ ''_'' @ string_of_nat 5 @ ''.pdf''"
proof -
  have d: "string_of_nat 5 = ''5''"
    by (simp add: string_of_nat_eval)
  show ?thesis
    by (simp add: downloadPdf_def replace_all_def is_alnum_def strip_non_alnum_def d)
qed

text \<open>
  C7, amended: for every title and time, the PDF download is named
  \<open>{sanitizedTitle}_{epochMillis}.pdf\<close> and the image download
  \<open>{sanitizedTitle}_{epochMillis}.png\<close>, where sanitizedTitle is the title with every
  character outside \<open>[a-z0-9]\<close> (either case) replaced by an underscore: it has the
  length of the title, and stripping the characters outside the class from it gives
  what stripping them from the title gives.
\<close>

theorem C7_download_names:
  "downloadPdf (Some title) now = underscore_non_alnum title @ ''_'' @ string_of_nat now @ ''.pdf'' \<and>
   downloadChartAsImage title now = underscore_non_alnum title @ ''_'' @ string_of_nat now @ ''.png'' \<and>
   length (underscore_non_alnum title) = length title \<and>
   strip_non_alnum (underscore_non_alnum title) = strip_non_alnum title"
  by (simp add: downloadPdf_def downloadChartAsImage_def sanitize_eq_underscore
      strip_underscore_non_alnum)
    (simp add: underscore_non_alnum_def)

theorem C7_download_names_witness:
  "downloadPdf (Some ''Ventes 2024'') 1700000000000 = ''Ventes_2024_1700000000000.pdf'' \<and>
   downloadChartAsImage ''Ventes 2024'' 1700000000000 = ''Ventes_2024_1700000000000.png''"
proof -
  have u: "underscore_non_alnum ''Ventes 2024'' = ''Ventes_2024''"
    by (simp add: underscore_non_alnum_def is_alnum_def)
  have d: "string_of_nat 1700000000000 = ''1700000000000''"
    by (simp add: string_of_nat_eval)
  show ?thesis
    using C7_download_names [of "''Ventes 2024''" 1700000000000] by (simp add: u d)
qed

section \<open>The legend columns\<close>

lemma ceil_covers:
  assumes "0 < c"
  shows "n \<le> c * nat \<lceil>real n / real c\<rceil>"
proof -
  let ?z = "\<lceil>real n / real c\<rceil>"
  have x: "real n / real c \<le> of_int ?z"
    by (rule le_of_int_ceiling)
  have nonneg: "0 \<le> ?z"
  proof -
    have "\<lceil>0::real\<rceil> \<le> ?z"
      by (rule ceiling_mono) simp
    then show ?thesis by simp
  qed
  have "real n = (real n / real c) * real c"
    using assms by simp
  also have "\<dots> \<le> of_int ?z * real c"
    using x by (rule mult_right_mono) simp
  also have "of_int ?z = real (nat ?z)"
    using nonneg by simp
  finally have "real n \<le> real (nat ?z * c)"
    by simp
  then have "n \<le> nat ?z * c"
    by (simp only: of_nat_le_iff)
  then show ?thesis
    by (simp add: mult.commute)
qed

lemma div_eq_interval:
  assumes "0 < (k::nat)" and "i div k = col"
  shows "col * k \<le> i \<and> i < col * k + k"
proof -
  have "i div k * k + i mod k = i" by (rule div_mult_mod_eq)
  moreover have "i mod k < k" using assms(1) by simp
  ultimately show ?thesis using assms(2) by auto
qed

lemma length_filter_div_le:
  assumes "0 < k"
  shows "length (filter (\<lambda>i. i div k = col) [0..<n]) \<le> k"
proof -
  have "length (filter (\<lambda>i. i div k = col) [0..<n]) = card ({i. i div k = col} \<inter> set [0..<n])"
    by (simp add: distinct_length_filter)
  also have "\<dots> \<le> card {col * k ..< col * k + k}"
  proof (rule card_mono)
    show "finite {col * k ..< col * k + k}" by simp
    show "{i. i div k = col} \<inter> set [0..<n] \<subseteq> {col * k ..< col * k + k}"
      using div_eq_interval[OF assms] by auto
  qed
  finally show ?thesis by simp
qed

lemma sum_indicator:
  "(\<Sum>col<(c::nat). if a = col then 1 else 0) = (if a < c then 1 else (0::nat))"
proof -
  have "(\<Sum>col\<in>{..<c}. if a = col then 1 else 0) = (if a \<in> {..<c} then 1 else (0::nat))"
    by (rule sum.delta') simp
  then show ?thesis by simp
qed

lemma count_filter_sum:
  "(\<Sum>col<(c::nat). length (filter (\<lambda>x. f x = col) xs)) = length (filter (\<lambda>x. f x < c) xs)"
proof (induction xs)
  case Nil
  show ?case by simp
next
  case (Cons x xs)
  have "(\<Sum>col<c. length (filter (\<lambda>y. f y = col) (x # xs))) =
        (\<Sum>col<c. (if f x = col then 1 else 0) + length (filter (\<lambda>y. f y = col) xs))"
    by (rule sum.cong) auto
  also have "\<dots> = (\<Sum>col<c. if f x = col then 1 else 0) + (\<Sum>col<c. length (filter (\<lambda>y. f y = col) xs))"
    by (simp only: sum.distrib)
  also have "\<dots> = (if f x < c then 1 else 0) + length (filter (\<lambda>x. f x < c) xs)"
    by (simp only: sum_indicator Cons.IH)
  finally show ?case by simp
qed

lemma items_in_column_Some:
  assumes "itemsPerColumn n c = Some k"
  shows "items_in_column n c col = length (filter (\<lambda>i. i div k = col) [0..<n])"
  using assms
  by (simp add: items_in_column_def legend_cells_def columnIndex_def filter_map comp_def)

text \<open>
  C6: a legend of \<open>n\<close> items rendered with \<open>c\<close> columns (\<open>c\<close> positive) puts at most
  \<open>ceil(n/c)\<close> items in any column, and the item counts of the \<open>c\<close> columns sum to
  \<open>n\<close>: every item is in exactly one of them.
\<close>

theorem C6_legend_columns:
  assumes "0 < c"
  shows "items_in_column n c col \<le> nat \<lceil>real n / real c\<rceil> \<and>
         (\<Sum>col<c. items_in_column n c col) = n"
proof -
  let ?k = "nat \<lceil>real n / real c\<rceil>"
  have ipc: "itemsPerColumn n c = Some ?k"
    using assms by (simp add: itemsPerColumn_def)
  have cover: "n \<le> c * ?k" by (rule ceil_covers[OF assms])
  show ?thesis
  proof (cases "n = 0")
    case True
    then show ?thesis by (simp add: items_in_column_def legend_cells_def)
  next
    case False
    with cover have kpos: "0 < ?k" by (cases "?k = 0") auto
    have le: "items_in_column n c col \<le> ?k"
      by (simp only: items_in_column_Some[OF ipc] length_filter_div_le[OF kpos])
    have "\<And>i. i < n \<Longrightarrow> i div ?k < c"
    proof -
      fix i assume "i < n"
      with cover have "i < c * ?k" by simp
      then show "i div ?k < c" using kpos
        by (simp add: less_mult_imp_div_less mult.commute)
    qed
    then have all: "filter (\<lambda>i. i div ?k < c) [0..<n] = [0..<n]"
      by (simp add: filter_id_conv)
    have "(\<Sum>col<c. items_in_column n c col) = (\<Sum>col<c. length (filter (\<lambda>i. i div ?k = col) [0..<n]))"
      by (simp only: items_in_column_Some[OF ipc])
    also have "\<dots> = length (filter (\<lambda>i. i div ?k < c) [0..<n])"
      by (rule count_filter_sum)
    also have "\<dots> = n" by (simp only: all) simp
    finally show ?thesis using le by simp
  qed
qed

theorem C6_legend_columns_witness:
  "(0::nat) < 4 \<and> items_in_column 10 4 0 = 3 \<and> items_in_column 10 4 3 = 1 \<and>
   nat \<lceil>real 10 / real 4\<rceil> = 3 \<and> (\<Sum>col<4. items_in_column 10 4 col) = 10"
proof -
  have t: "(0::nat) < 4" by simp
  have "items_in_column 10 4 0 = 3" "items_in_column 10 4 3 = 1"
    by (simp_all add: items_in_column_def legend_cells_def itemsPerColumn_def
        columnIndex_def rowIndex_def upt_rec)
  then show ?thesis
    using C6_legend_columns [OF t, of 10 0] by simp
qed

section \<open>Availability of a chart widget\<close>

lemma includes_sublist: "str_includes s sub = sublist sub s"
proof (induction s)
  case Nil
  show ?case by auto
next
  case (Cons c s)
  then show ?case by (simp add: sublist_Cons_right)
qed

text \<open>
  C8, as the specification states it, fails: widget-utils.ts also accepts a manifest
  name that contains \<open>chartwidget\<close> anywhere. \<open>mychartwidget\<close> is neither \<open>chart\<close>
  nor a name beginning with it, and the widget is reported available.
\<close>

theorem C8_counterexample:
  "widget_utils_isChartWidgetAvailable
     (Store (Some [''w1'' \<mapsto> \<lparr>uri = None, manifest_name = Some ''mychartwidget'', label = None\<rparr>]))
     ''w1'' \<and>
   \<not> spec_chart_tag ''mychartwidget'' \<and> \<not> spec_chart_tag (toLowerCase ''mychartwidget'')"
  by (simp add: widget_utils_isChartWidgetAvailable_def spec_chart_tag_def toLowerCase_def
      to_lower_char_def)

text \<open>
  C8, amended: \<open>isChartWidgetAvailable\<close> returns true only if the widget is registered
  and, in widget-utils.ts, its lower-cased manifest name begins with \<open>chart\<close> (which
  covers the exact match) or contains \<open>chartwidget\<close>; in chart-print-service.ts,
  only if the widget is registered and its \<open>uri\<close> contains \<open>chart\<close>.
\<close>

theorem C8_available_only_if:
  "(widget_utils_isChartWidgetAvailable st chartWidgetId \<longrightarrow>
      (\<exists>ws w n. st = Store (Some ws) \<and> ws chartWidgetId = Some w \<and> manifest_name w = Some n \<and>
         (prefix ''chart'' (toLowerCase n) \<or> sublist ''chartwidget'' (toLowerCase n)))) \<and>
   (isChartWidgetAvailable st chartWidgetId = Inr True \<longrightarrow>
      (\<exists>ws w u. st = Store (Some ws) \<and> ws chartWidgetId = Some w \<and> uri w = Some u \<and>
         sublist ''chart'' u))"
  by (auto simp: widget_utils_isChartWidgetAvailable_def isChartWidgetAvailable_def
      includes_sublist Let_def
      split: app_store.splits option.splits if_splits)

theorem C8_available_only_if_witness:
  "widget_utils_isChartWidgetAvailable
     (Store (Some [''w1'' \<mapsto> \<lparr>uri = Some ''widgets/common/chart/'', manifest_name = Some ''Chart'', label = None\<rparr>]))
     ''w1'' \<and>
   (\<exists>w n. [''w1'' \<mapsto> \<lparr>uri = Some ''widgets/common/chart/'', manifest_name = Some ''Chart'', label = None\<rparr>] ''w1'' = Some w \<and>
      manifest_name w = Some n \<and>
      (prefix ''chart'' (toLowerCase n) \<or> sublist ''chartwidget'' (toLowerCase n))) \<and>
   isChartWidgetAvailable
     (Store (Some [''w1'' \<mapsto> \<lparr>uri = Some ''widgets/common/chart/'', manifest_name = Some ''Chart'', label = None\<rparr>]))
     ''w1'' = Inr True"
proof -
  let ?st = "Store (Some [''w1'' \<mapsto> \<lparr>uri = Some ''widgets/common/chart/'', manifest_name = Some ''Chart'', label = None\<rparr>])"
  have a: "widget_utils_isChartWidgetAvailable ?st ''w1''"
    by (simp add: widget_utils_isChartWidgetAvailable_def toLowerCase_def to_lower_char_def)
  have b: "isChartWidgetAvailable ?st ''w1'' = Inr True"
    by (simp add: isChartWidgetAvailable_def)
  show ?thesis
    using C8_available_only_if [of ?st "''w1''"] a b by simp
qed

section \<open>The element cache on the read path\<close>

lemma lookupChartElement_cache:
  "snd (lookupChartElement w d now i) =
     (case fst (lookupChartElement w d now i) of
        None \<Rightarrow> w
      | Some e \<Rightarrow> setCachedElement w now i e)"
  by (simp add: lookupChartElement_def split: option.splits)

text \<open>
  In chart-print-service.ts the claim of C9 holds: a cached element is returned only
  while it is attached, and a live entry whose element has left the document is deleted
  before the fresh lookup, so that the cache afterwards holds for this identifier either
  nothing or what the fresh lookup found.
\<close>

lemma getChartElement_evicts:
  assumes "chartElementCache w i = Some c"
    and "now - el_timestamp c < ELEMENT_CACHE_TTL"
    and "\<not> doc_contains d (el_element c)"
    and "i \<noteq> []"
    and "getChartElement w d now i = (r, w')"
  shows "(r = None \<and> chartElementCache w' i = None) \<or>
         (\<exists>e. r = Some e \<and> chartElementCache w' i = Some \<lparr>el_element = e, el_timestamp = now\<rparr>)"
proof -
  let ?w = "w\<lparr>chartElementCache := (chartElementCache w)(i := None)\<rparr>"
  have "lookupChartElement ?w d now i = (r, w')"
    using assms by (simp add: getChartElement_def)
  with lookupChartElement_cache[of ?w d now i] show ?thesis
    by (cases r) (simp_all add: setCachedElement_def)
qed

lemma getChartElement_cached_attached:
  assumes "chartElementCache w i = Some c"
    and "now - el_timestamp c < ELEMENT_CACHE_TTL"
    and "doc_contains d (el_element c)"
    and "i \<noteq> []"
  shows "getChartElement w d now i = (Some (el_element c), w)"
  using assms by (simp add: getChartElement_def)

text \<open>
  C9 fails in widget-utils.ts: the cache holds element 7 for \<open>w1\<close>, written at time 0;
  at time 1000 the element is in no document and nothing matches the selector.
  \<open>getChartElement\<close> returns null and the entry is still in the cache.
\<close>

theorem C9_widget_utils_keeps_detached_entry:
  "widget_utils_getChartElement
     \<lparr>chartElementCache = [''w1'' \<mapsto> \<lparr>el_element = 7, el_timestamp = 0\<rparr>],
      captureCache = Map.empty, raster_calls = 0\<rparr>
     empty_dom 1000 ''w1'' =
   (Inr None,
    \<lparr>chartElementCache = [''w1'' \<mapsto> \<lparr>el_element = 7, el_timestamp = 0\<rparr>],
     captureCache = Map.empty, raster_calls = 0\<rparr>) \<and>
   snd (getChartElement
     \<lparr>chartElementCache = [''w1'' \<mapsto> \<lparr>el_element = 7, el_timestamp = 0\<rparr>],
      captureCache = Map.empty, raster_calls = 0\<rparr>
     empty_dom 1000 ''w1'') =
   \<lparr>chartElementCache = Map.empty, captureCache = Map.empty, raster_calls = 0\<rparr>"
  by (simp add: widget_utils_getChartElement_def getCachedElement_def getChartElement_def
      lookupChartElement_def primarySelectors_def secondarySelectors_def
      ELEMENT_CACHE_TTL_def empty_dom_def)

section \<open>The capture cache\<close>

lemma lookupChartElement_keeps:
  "captureCache (snd (lookupChartElement w d now i)) = captureCache w \<and>
   raster_calls (snd (lookupChartElement w d now i)) = raster_calls w"
  by (simp add: lookupChartElement_def setCachedElement_def split: option.splits)

lemma getChartElement_keeps:
  "captureCache (snd (getChartElement w d now i)) = captureCache w \<and>
   raster_calls (snd (getChartElement w d now i)) = raster_calls w"
  by (simp add: getChartElement_def lookupChartElement_keeps split: option.splits)

lemma widget_utils_getChartElement_keeps:
  "captureCache (snd (widget_utils_getChartElement w d now i)) = captureCache w \<and>
   raster_calls (snd (widget_utils_getChartElement w d now i)) = raster_calls w"
  by (simp add: widget_utils_getChartElement_def setCachedElement_def
      split: option.splits sum.splits)

lemma htmlToCanvas_all_fail:
  "all_techniques_fail env options \<Longrightarrow> htmlToCanvas env options = None"
  by (auto simp: all_techniques_fail_def htmlToCanvas_def isl_def split: sum.splits)

lemma capture_failure_simps:
  "\<not> success (capture_failure m)" "error (capture_failure m) = Some m"
  "dataUrl (capture_failure m) = None"
  by (simp_all add: capture_failure_def)

lemma capture_success_simps:
  "success (capture_success u c)" "dataUrl (capture_success u c) = Some u"
  by (simp_all add: capture_success_def)

lemma captureChartAsImage_outcomes:
  assumes "captureChartAsImage w env i options forceRefresh = (x, w')"
  shows "\<exists>r. x = Inr r \<and>
     (served_from_cache w env i forceRefresh r w' \<or>
      refused_unrasterised w r w' \<or>
      rasterised_nothing w env options msg_capture_failed r w' \<or>
      data_url_threw w env options r w' \<or>
      captured_fresh w env options i r w')"
proof -
  obtain e w1 where g: "getChartElement w (env_dom env) (now_lookup env) i = (e, w1)"
    by force
  have k: "captureCache w1 = captureCache w" "raster_calls w1 = raster_calls w"
    using getChartElement_keeps[of w "env_dom env" "now_lookup env" i] g by simp_all
  show ?thesis
  proof (cases "if forceRefresh then None else getCachedCapture w (now_read env) i")
    case (Some cached)
    then show ?thesis
      using assms
      by (auto simp: captureChartAsImage_def captureChartAsImage_try_def served_from_cache_def
          split: if_splits)
  next
    case None
    show ?thesis
    proof (cases "isChartWidgetAvailable (env_store env) i")
      case (Inl thrown)
      then show ?thesis
        using assms None
        by (auto simp: captureChartAsImage_def captureChartAsImage_try_def
            refused_unrasterised_def capture_failure_simps)
    next
      case (Inr avail)
      show ?thesis
      proof (cases avail)
        case False
        then show ?thesis
          using assms None Inr
          by (auto simp: captureChartAsImage_def captureChartAsImage_try_def
              refused_unrasterised_def capture_failure_simps)
      next
        case True
        show ?thesis
        proof (cases e)
          case None2: None
          then show ?thesis
            using assms None Inr True g k
            by (auto simp: captureChartAsImage_def captureChartAsImage_try_def
                refused_unrasterised_def capture_failure_simps)
        next
          case (Some el)
          show ?thesis
          proof (cases "htmlToCanvas (env_raster env el) options")
            case None3: None
            then show ?thesis
              using assms None Inr True g k Some
              by (auto simp: captureChartAsImage_def captureChartAsImage_try_def
                  rasterised_nothing_def)
          next
            case Some2: (Some canvas)
            show ?thesis
            proof (cases "env_to_data_url env")
              case Inl2: (Inl thrown)
              have "\<exists>el c. htmlToCanvas (env_raster env el) options = Some c"
                using Some2 by blast
              with Inl2 show ?thesis
                using assms None Inr True g k Some Some2
                by (auto simp: captureChartAsImage_def captureChartAsImage_try_def
                    data_url_threw_def capture_failure_simps)
            next
              case Inr2: (Inr url)
              let ?r = "capture_success url canvas"
              let ?w = "setCachedCapture (w1\<lparr>raster_calls := Suc (raster_calls w1)\<rparr>) (now_write env) i ?r"
              have "\<exists>el c u. htmlToCanvas (env_raster env el) options = Some c \<and> ?r = capture_success u c"
                using Some2 by blast
              then have fresh: "captured_fresh w env options i ?r ?w"
                using k by (simp add: captured_fresh_def capture_success_simps setCachedCapture_def)
              have "captureChartAsImage w env i options forceRefresh = (Inr ?r, ?w)"
                using None Inr True g Some Some2 Inr2
                by (simp add: captureChartAsImage_def captureChartAsImage_try_def)
              with assms fresh show ?thesis by auto
            qed
          qed
        qed
      qed
    qed
  qed
qed

lemma capture_captureChartAsImage_outcomes:
  assumes "capture_captureChartAsImage w env i options forceRefresh = (x, w')"
  shows "\<exists>r. x = Inr r \<and>
     (served_from_cache w env i forceRefresh r w' \<or>
      refused_unrasterised w r w' \<or>
      rasterised_nothing w env options msg_capture_returned_null r w' \<or>
      data_url_threw w env options r w' \<or>
      captured_fresh w env options i r w')"
proof -
  obtain e w1 where g: "widget_utils_getChartElement w (env_dom env) (now_lookup env) i = (e, w1)"
    by force
  have k: "captureCache w1 = captureCache w" "raster_calls w1 = raster_calls w"
    using widget_utils_getChartElement_keeps[of w "env_dom env" "now_lookup env" i] g by simp_all
  show ?thesis
  proof (cases "if forceRefresh then None else getCachedCapture w (now_read env) i")
    case (Some cached)
    then show ?thesis
      using assms
      by (auto simp: capture_captureChartAsImage_def capture_captureChartAsImage_try_def served_from_cache_def
          split: if_splits)
  next
    case None
    show ?thesis
    proof (cases "widget_utils_isChartWidgetAvailable (env_store env) i")
      case False
      then show ?thesis
        using assms None
        by (auto simp: capture_captureChartAsImage_def capture_captureChartAsImage_try_def
            refused_unrasterised_def capture_failure_simps)
    next
      case True
      show ?thesis
      proof (cases e)
        case (Inl thrown)
        then show ?thesis
          using assms None True g k
          by (auto simp: capture_captureChartAsImage_def capture_captureChartAsImage_try_def
              refused_unrasterised_def capture_failure_simps)
      next
        case (Inr found)
        show ?thesis
        proof (cases found)
          case None2: None
          then show ?thesis
            using assms None Inr True g k
            by (auto simp: capture_captureChartAsImage_def capture_captureChartAsImage_try_def
                refused_unrasterised_def capture_failure_simps)
        next
          case (Some el)
          show ?thesis
          proof (cases "htmlToCanvas (env_raster env el) options")
            case None3: None
            then show ?thesis
              using assms None Inr True g k Some
              by (auto simp: capture_captureChartAsImage_def capture_captureChartAsImage_try_def
                  rasterised_nothing_def)
          next
            case Some2: (Some canvas)
            show ?thesis
            proof (cases "env_to_data_url env")
              case Inl2: (Inl thrown)
              have "\<exists>el c. htmlToCanvas (env_raster env el) options = Some c"
                using Some2 by blast
              with Inl2 show ?thesis
                using assms None Inr True g k Some Some2
                by (auto simp: capture_captureChartAsImage_def capture_captureChartAsImage_try_def
                    data_url_threw_def capture_failure_simps)
            next
              case Inr2: (Inr url)
              let ?r = "capture_success url canvas"
              let ?w = "setCachedCapture (w1\<lparr>raster_calls := Suc (raster_calls w1)\<rparr>) (now_write env) i ?r"
              have "\<exists>el c u. htmlToCanvas (env_raster env el) options = Some c \<and> ?r = capture_success u c"
                using Some2 by blast
              then have fresh: "captured_fresh w env options i ?r ?w"
                using k by (simp add: captured_fresh_def capture_success_simps setCachedCapture_def)
              have "capture_captureChartAsImage w env i options forceRefresh = (Inr ?r, ?w)"
                using None Inr True g Some Some2 Inr2
                by (simp add: capture_captureChartAsImage_def capture_captureChartAsImage_try_def)
              with assms fresh show ?thesis by auto
            qed
          qed
        qed
      qed
    qed
  qed
qed

lemma capture_keeps_successes:
  assumes "cache_holds_successes w"
  shows "cache_holds_successes (snd (captureChartAsImage w env i options forceRefresh))"
proof -
  obtain x w' where c: "captureChartAsImage w env i options forceRefresh = (x, w')"
    by force
  from captureChartAsImage_outcomes[OF c] assms show ?thesis
    unfolding c
    by (auto simp: cache_holds_successes_def served_from_cache_def refused_unrasterised_def
        rasterised_nothing_def data_url_threw_def captured_fresh_def split: if_splits)
qed

lemma capture_capture_keeps_successes:
  assumes "cache_holds_successes w"
  shows "cache_holds_successes (snd (capture_captureChartAsImage w env i options forceRefresh))"
proof -
  obtain x w' where c: "capture_captureChartAsImage w env i options forceRefresh = (x, w')"
    by force
  from capture_captureChartAsImage_outcomes[OF c] assms show ?thesis
    unfolding c
    by (auto simp: cache_holds_successes_def served_from_cache_def refused_unrasterised_def
        rasterised_nothing_def data_url_threw_def captured_fresh_def split: if_splits)
qed

lemma sweep_keeps_successes:
  "cache_holds_successes w \<Longrightarrow> cache_holds_successes (cleanExpiredCache w now)"
  by (auto simp: cache_holds_successes_def cleanExpiredCache_def split: option.splits if_splits)

lemma reachable_holds_successes: "reachable w \<Longrightarrow> cache_holds_successes w"
proof (induction rule: reachable.induct)
  case reachable_initial
  show ?case by (simp add: cache_holds_successes_def initial_world_def)
next
  case (reachable_capture w env i options forceRefresh)
  then show ?case by (simp add: capture_keeps_successes)
next
  case (reachable_element w d now i)
  then show ?case by (simp add: cache_holds_successes_def getChartElement_keeps)
next
  case (reachable_sweep w now)
  then show ?case by (simp add: sweep_keeps_successes)
next
  case (reachable_invalidate w i)
  then show ?case by (simp add: cache_holds_successes_def invalidateChartCache_def)
next
  case (reachable_cleanup w)
  then show ?case by (simp add: cache_holds_successes_def clearAllCaches_def)
qed

lemma capture_reachable_holds_successes: "capture_reachable w \<Longrightarrow> cache_holds_successes w"
proof (induction rule: capture_reachable.induct)
  case capture_reachable_initial
  show ?case by (simp add: cache_holds_successes_def initial_world_def)
next
  case (capture_reachable_capture w env i options forceRefresh)
  then show ?case by (simp add: capture_capture_keeps_successes)
next
  case (capture_reachable_element w d now i)
  then show ?case by (simp add: cache_holds_successes_def widget_utils_getChartElement_keeps)
next
  case (capture_reachable_sweep w now)
  then show ?case by (simp add: sweep_keeps_successes)
next
  case (capture_reachable_clear w)
  then show ?case by (simp add: cache_holds_successes_def clearAllCaches_def)
qed

lemma served_from_cache_success:
  "cache_holds_successes w \<Longrightarrow> served_from_cache w env i forceRefresh r w' \<Longrightarrow> success r"
  by (auto simp: cache_holds_successes_def served_from_cache_def getCachedCapture_def
      split: option.splits if_splits)

section \<open>The boundary of the capture\<close>

lemma msg_nonempty: "msg_capture_failed \<noteq> []" "msg_capture_returned_null \<noteq> []"
  by (simp_all add: msg_capture_failed_def msg_capture_returned_null_def)

lemma all_fail_outcome:
  assumes "\<forall>el. all_techniques_fail (env_raster env el) options"
    and "raster_calls w' \<noteq> raster_calls w"
    and "served_from_cache w env i forceRefresh r w' \<or>
         refused_unrasterised w r w' \<or>
         rasterised_nothing w env options msg r w' \<or>
         data_url_threw w env options r w' \<or>
         captured_fresh w env options i r w'"
  shows "r = capture_failure msg"
proof -
  have none: "\<And>el. htmlToCanvas (env_raster env el) options = None"
    using assms(1) by (simp add: htmlToCanvas_all_fail)
  have "\<not> served_from_cache w env i forceRefresh r w'"
    using assms(2) by (auto simp: served_from_cache_def)
  moreover have "\<not> refused_unrasterised w r w'"
    using assms(2) by (auto simp: refused_unrasterised_def)
  moreover have "\<not> data_url_threw w env options r w'"
    using none by (auto simp: data_url_threw_def)
  ultimately have "rasterised_nothing w env options msg r w' \<or> captured_fresh w env options i r w'"
    using assms(3) by blast
  then show ?thesis
    using none by (auto simp: rasterised_nothing_def captured_fresh_def)
qed

text \<open>
  C2: \<open>captureChartAsImage\<close> (both files) never throws: it always returns a result.
  When a call rasterises (it is not served from the cache and finds the widget and its
  element) and all three techniques fail on every element, the result is
  \<open>success:false\<close> with a non-empty error string.
\<close>

theorem C2_capture_never_throws:
  "(\<exists>r. fst (captureChartAsImage w env i options forceRefresh) = Inr r) \<and>
   (\<exists>r. fst (capture_captureChartAsImage w env i options forceRefresh) = Inr r) \<and>
   ((\<forall>el. all_techniques_fail (env_raster env el) options) \<and>
    raster_calls (snd (captureChartAsImage w env i options forceRefresh)) \<noteq> raster_calls w \<longrightarrow>
      (\<exists>r m. fst (captureChartAsImage w env i options forceRefresh) = Inr r \<and>
         \<not> success r \<and> error r = Some m \<and> m \<noteq> [])) \<and>
   ((\<forall>el. all_techniques_fail (env_raster env el) options) \<and>
    raster_calls (snd (capture_captureChartAsImage w env i options forceRefresh)) \<noteq> raster_calls w \<longrightarrow>
      (\<exists>r m. fst (capture_captureChartAsImage w env i options forceRefresh) = Inr r \<and>
         \<not> success r \<and> error r = Some m \<and> m \<noteq> []))"
proof -
  obtain x w' where c: "captureChartAsImage w env i options forceRefresh = (x, w')"
    by force
  obtain y v' where d: "capture_captureChartAsImage w env i options forceRefresh = (y, v')"
    by force
  from captureChartAsImage_outcomes[OF c] obtain r where
    r: "x = Inr r"
       "served_from_cache w env i forceRefresh r w' \<or> refused_unrasterised w r w' \<or>
        rasterised_nothing w env options msg_capture_failed r w' \<or>
        data_url_threw w env options r w' \<or> captured_fresh w env options i r w'"
    by blast
  from capture_captureChartAsImage_outcomes[OF d] obtain q where
    q: "y = Inr q"
       "served_from_cache w env i forceRefresh q v' \<or> refused_unrasterised w q v' \<or>
        rasterised_nothing w env options msg_capture_returned_null q v' \<or>
        data_url_threw w env options q v' \<or> captured_fresh w env options i q v'"
    by blast
  have a: "(\<forall>el. all_techniques_fail (env_raster env el) options) \<and> raster_calls w' \<noteq> raster_calls w
        \<longrightarrow> r = capture_failure msg_capture_failed"
    using all_fail_outcome[OF _ _ r(2)] by blast
  have b: "(\<forall>el. all_techniques_fail (env_raster env el) options) \<and> raster_calls v' \<noteq> raster_calls w
        \<longrightarrow> q = capture_failure msg_capture_returned_null"
    using all_fail_outcome[OF _ _ q(2)] by blast
  show ?thesis
    unfolding c d using r(1) q(1) a b
    by (auto simp: capture_failure_simps msg_nonempty)
qed

theorem C2_capture_never_throws_witness:
  "(\<forall>el. all_techniques_fail (env_raster (example_env 0 failing_raster) el) no_options) \<and>
   raster_calls (snd (captureChartAsImage initial_world (example_env 0 failing_raster) ''w1'' no_options False))
     \<noteq> raster_calls initial_world \<and>
   (\<exists>r m. fst (captureChartAsImage initial_world (example_env 0 failing_raster) ''w1'' no_options False) = Inr r \<and>
      \<not> success r \<and> error r = Some m \<and> m \<noteq> [])"
proof -
  have f: "\<forall>el. all_techniques_fail (env_raster (example_env 0 failing_raster) el) no_options"
    by (simp add: all_techniques_fail_def example_env_def failing_raster_def no_options_def
        reuseExistingCanvas_def findLargestCanvas_def rasterizeContainer_def svgFallback_def)
  have h: "htmlToCanvas failing_raster no_options = None"
    using f by (simp add: htmlToCanvas_all_fail example_env_def)
  have n: "raster_calls (snd (captureChartAsImage initial_world (example_env 0 failing_raster) ''w1'' no_options False))
     \<noteq> raster_calls initial_world"
    by (simp add: captureChartAsImage_def captureChartAsImage_try_def getCachedCapture_def
        initial_world_def example_env_def example_store_def example_dom_def
        isChartWidgetAvailable_def getChartElement_def lookupChartElement_def
        primarySelectors_def setCachedElement_def h)
  show ?thesis
    using C2_capture_never_throws
      [of initial_world "example_env 0 failing_raster" "''w1''" no_options False] f n
    by blast
qed

section \<open>Failures and the capture cache\<close>

text \<open>
  C10: whenever \<open>captureChartAsImage\<close> (either file) returns \<open>success:false\<close>, the capture
  cache is as it was before the call. In every state the module can reach, the cache
  holds successful results only, before and after the call, so a result served from
  the cache is never a failure.
\<close>

theorem C10_failure_not_cached:
  "(fst (captureChartAsImage w env i options forceRefresh) = Inr r \<and> \<not> success r \<longrightarrow>
      captureCache (snd (captureChartAsImage w env i options forceRefresh)) = captureCache w) \<and>
   (fst (capture_captureChartAsImage w env i options forceRefresh) = Inr r \<and> \<not> success r \<longrightarrow>
      captureCache (snd (capture_captureChartAsImage w env i options forceRefresh)) = captureCache w) \<and>
   (reachable w \<longrightarrow>
      cache_holds_successes (snd (captureChartAsImage w env i options forceRefresh)) \<and>
      (served_from_cache w env i forceRefresh r w' \<longrightarrow> success r)) \<and>
   (capture_reachable w \<longrightarrow>
      cache_holds_successes (snd (capture_captureChartAsImage w env i options forceRefresh)) \<and>
      (served_from_cache w env i forceRefresh r w' \<longrightarrow> success r))"
proof -
  obtain x w1 where c: "captureChartAsImage w env i options forceRefresh = (x, w1)"
    by force
  obtain y v1 where d: "capture_captureChartAsImage w env i options forceRefresh = (y, v1)"
    by force
  have a: "x = Inr r \<and> \<not> success r \<longrightarrow> captureCache w1 = captureCache w"
    using captureChartAsImage_outcomes[OF c]
    by (auto simp: served_from_cache_def refused_unrasterised_def rasterised_nothing_def
        data_url_threw_def captured_fresh_def)
  have b: "y = Inr r \<and> \<not> success r \<longrightarrow> captureCache v1 = captureCache w"
    using capture_captureChartAsImage_outcomes[OF d]
    by (auto simp: served_from_cache_def refused_unrasterised_def rasterised_nothing_def
        data_url_threw_def captured_fresh_def)
  show ?thesis
    using a b reachable_holds_successes[of w] capture_reachable_holds_successes[of w]
      capture_keeps_successes[of w env i options forceRefresh]
      capture_capture_keeps_successes[of w env i options forceRefresh]
      served_from_cache_success[of w env i forceRefresh r w']
    unfolding c d by auto
qed

theorem C10_failure_not_cached_witness:
  "reachable initial_world \<and>
   fst (captureChartAsImage initial_world (example_env 0 failing_raster) ''w1'' no_options False)
     = Inr (capture_failure msg_capture_failed) \<and>
   \<not> success (capture_failure msg_capture_failed) \<and>
   captureCache (snd (captureChartAsImage initial_world (example_env 0 failing_raster) ''w1'' no_options False))
     = captureCache initial_world \<and>
   cache_holds_successes (snd (captureChartAsImage initial_world (example_env 0 failing_raster) ''w1'' no_options False))"
proof -
  have r: "reachable initial_world" by (rule reachable_initial)
  have h: "htmlToCanvas failing_raster no_options = None"
    by (simp add: htmlToCanvas_def failing_raster_def no_options_def
        reuseExistingCanvas_def findLargestCanvas_def rasterizeContainer_def svgFallback_def)
  have f: "fst (captureChartAsImage initial_world (example_env 0 failing_raster) ''w1'' no_options False)
     = Inr (capture_failure msg_capture_failed)"
    by (simp add: captureChartAsImage_def captureChartAsImage_try_def getCachedCapture_def
        initial_world_def example_env_def example_store_def example_dom_def
        isChartWidgetAvailable_def getChartElement_def lookupChartElement_def
        primarySelectors_def setCachedElement_def h)
  show ?thesis
    using C10_failure_not_cached
      [of initial_world "example_env 0 failing_raster" "''w1''" no_options False
          "capture_failure msg_capture_failed"] r f
    by (simp add: capture_failure_simps)
qed

section \<open>A second capture within the time to live\<close>

lemma second_call_hit:
  assumes "served_from_cache w env1 i f1 r w' \<or> captured_fresh w env1 options1 i r w'"
    and "\<forall>c. captureCache w' i = Some c \<longrightarrow> now_read env2 - cap_timestamp c < CAPTURE_CACHE_TTL"
  shows "getCachedCapture w' (now_read env2) i = Some r"
  using assms
  by (auto simp: served_from_cache_def captured_fresh_def getCachedCapture_def
      split: option.splits if_splits)

lemma fresh_capture:
  assumes "f1 \<or> getCachedCapture w (now_read env1) i = None"
    and "isChartWidgetAvailable (env_store env1) i = Inr True"
    and "fst (getChartElement w (env_dom env1) (now_lookup env1) i) = Some el"
    and "htmlToCanvas (env_raster env1 el) options1 = Some c"
    and "env_to_data_url env1 = Inr url"
  shows "captureChartAsImage w env1 i options1 f1 =
     (Inr (capture_success url c),
      setCachedCapture
        ((snd (getChartElement w (env_dom env1) (now_lookup env1) i))
           \<lparr>raster_calls := Suc (raster_calls w)\<rparr>)
        (now_write env1) i (capture_success url c))"
proof -
  obtain w1 where g: "getChartElement w (env_dom env1) (now_lookup env1) i = (Some el, w1)"
    using assms(3) by (cases "getChartElement w (env_dom env1) (now_lookup env1) i") auto
  have k: "raster_calls w1 = raster_calls w"
    using getChartElement_keeps[of w "env_dom env1" "now_lookup env1" i] g by simp
  have n: "(if f1 then None else getCachedCapture w (now_read env1) i) = None"
    using assms(1) by auto
  show ?thesis
    unfolding captureChartAsImage_def captureChartAsImage_try_def n
    by (simp add: assms(2,4,5) g k)
qed

lemma capture_fresh_capture:
  assumes "f1 \<or> getCachedCapture w (now_read env1) i = None"
    and "widget_utils_isChartWidgetAvailable (env_store env1) i"
    and "fst (widget_utils_getChartElement w (env_dom env1) (now_lookup env1) i) = Inr (Some el)"
    and "htmlToCanvas (env_raster env1 el) options1 = Some c"
    and "env_to_data_url env1 = Inr url"
  shows "capture_captureChartAsImage w env1 i options1 f1 =
     (Inr (capture_success url c),
      setCachedCapture
        ((snd (widget_utils_getChartElement w (env_dom env1) (now_lookup env1) i))
           \<lparr>raster_calls := Suc (raster_calls w)\<rparr>)
        (now_write env1) i (capture_success url c))"
proof -
  obtain w1 where g: "widget_utils_getChartElement w (env_dom env1) (now_lookup env1) i =
      (Inr (Some el), w1)"
    using assms(3) by (cases "widget_utils_getChartElement w (env_dom env1) (now_lookup env1) i") auto
  have k: "raster_calls w1 = raster_calls w"
    using widget_utils_getChartElement_keeps[of w "env_dom env1" "now_lookup env1" i] g by simp
  have n: "(if f1 then None else getCachedCapture w (now_read env1) i) = None"
    using assms(1) by auto
  show ?thesis
    unfolding capture_captureChartAsImage_def capture_captureChartAsImage_try_def n
    by (simp add: assms(2,4,5) g k)
qed

text \<open>
  C4, as the specification states it, fails in two ways. A first call on which every
  technique fails caches nothing: a second call one second later rasterises again, and
  returns another \<open>dataUrl\<close> when the chart has been drawn meanwhile (both files). And
  the five seconds run from the capture that wrote the entry, not from the first of
  the two calls: of two calls one second apart, 4860 ms and 5860 ms after that capture,
  the first is served from the cache and the second rasterises again.
\<close>

theorem C4_counterexample:
  "fst (captureChartAsImage initial_world (example_env 0 failing_raster) ''w1'' no_options False) =
     Inr (capture_failure msg_capture_failed) \<and>
   raster_calls (after_failure False) = 1 \<and>
   fst (captureChartAsImage (after_failure False) (example_env 1000 example_raster) ''w1'' no_options False) =
     Inr (capture_success ''data:image/png;base64,iVBORw0KGgo='' (Canvas 800 600)) \<and>
   raster_calls (snd (captureChartAsImage (after_failure False) (example_env 1000 example_raster) ''w1''
     no_options False)) = 2 \<and>
   fst (capture_captureChartAsImage initial_world (example_env 0 failing_raster) ''w1'' no_options False) =
     Inr (capture_failure msg_capture_returned_null) \<and>
   raster_calls (after_failure True) = 1 \<and>
   fst (capture_captureChartAsImage (after_failure True) (example_env 1000 example_raster) ''w1''
     no_options False) =
     Inr (capture_success ''data:image/png;base64,iVBORw0KGgo='' (Canvas 800 600)) \<and>
   raster_calls (snd (capture_captureChartAsImage (after_failure True) (example_env 1000 example_raster)
     ''w1'' no_options False)) = 2 \<and>
   raster_calls world_with_capture = 1 \<and>
   captureChartAsImage world_with_capture (example_env 4900 failing_raster) ''w1''
     professional_capture_options False =
     (Inr (capture_success ''data:image/png;base64,iVBORw0KGgo='' (Canvas 1200 800)), world_with_capture) \<and>
   fst (captureChartAsImage world_with_capture (example_env 5900 failing_raster) ''w1''
     professional_capture_options False) = Inr (capture_failure msg_capture_failed) \<and>
   raster_calls (snd (captureChartAsImage world_with_capture (example_env 5900 failing_raster) ''w1''
     professional_capture_options False)) = 2"
proof -
  let ?url = "''data:image/png;base64,iVBORw0KGgo=''"
  have h: "htmlToCanvas example_raster no_options = Some (Canvas 800 600)"
    by (simp add: htmlToCanvas_def example_raster_def no_options_def reuseExistingCanvas_def
        findLargestCanvas_def SUFFICIENT_AREA_def targetWidth_def targetHeight_def
        actualWidth_def actualHeight_def)
  have hp: "htmlToCanvas example_raster professional_capture_options = Some (Canvas 1200 800)"
    by (simp add: htmlToCanvas_def example_raster_def professional_capture_options_def
        reuseExistingCanvas_def findLargestCanvas_def SUFFICIENT_AREA_def targetWidth_def
        targetHeight_def actualWidth_def actualHeight_def)
  have n: "htmlToCanvas failing_raster options = None" for options
    by (simp add: htmlToCanvas_def failing_raster_def reuseExistingCanvas_def findLargestCanvas_def
        rasterizeContainer_def svgFallback_def)
  define W1 where "W1 = \<lparr>chartElementCache = [''w1'' \<mapsto> \<lparr>el_element = 1, el_timestamp = 0\<rparr>],
            captureCache = Map.empty, raster_calls = 1\<rparr>"
  have a1: "captureChartAsImage initial_world (example_env 0 failing_raster) ''w1'' no_options False =
      (Inr (capture_failure msg_capture_failed), W1)"
    by (simp add: captureChartAsImage_def captureChartAsImage_try_def getCachedCapture_def
        initial_world_def example_env_def example_store_def example_dom_def
        isChartWidgetAvailable_def getChartElement_def lookupChartElement_def
        primarySelectors_def setCachedElement_def n W1_def)
  have b1: "captureChartAsImage W1 (example_env 1000 example_raster) ''w1'' no_options False =
      (Inr (capture_success ?url (Canvas 800 600)),
       W1\<lparr>captureCache := [''w1'' \<mapsto> \<lparr>cap_result = capture_success ?url (Canvas 800 600),
                                         cap_timestamp = 1040\<rparr>],
          raster_calls := 2\<rparr>)"
    by (simp add: captureChartAsImage_def captureChartAsImage_try_def getCachedCapture_def
        example_env_def example_store_def example_dom_def ELEMENT_CACHE_TTL_def
        isChartWidgetAvailable_def getChartElement_def setCachedCapture_def h W1_def)
  have a2: "capture_captureChartAsImage initial_world (example_env 0 failing_raster) ''w1'' no_options False =
      (Inr (capture_failure msg_capture_returned_null), W1)"
    by (simp add: capture_captureChartAsImage_def capture_captureChartAsImage_try_def
        getCachedCapture_def getCachedElement_def initial_world_def example_env_def example_store_def
        example_dom_def widget_utils_isChartWidgetAvailable_def toLowerCase_def to_lower_char_def
        widget_utils_getChartElement_def chartContainerOf_def setCachedElement_def n W1_def)
  have b2: "capture_captureChartAsImage W1 (example_env 1000 example_raster) ''w1'' no_options False =
      (Inr (capture_success ?url (Canvas 800 600)),
       W1\<lparr>captureCache := [''w1'' \<mapsto> \<lparr>cap_result = capture_success ?url (Canvas 800 600),
                                         cap_timestamp = 1040\<rparr>],
          raster_calls := 2\<rparr>)"
    by (simp add: capture_captureChartAsImage_def capture_captureChartAsImage_try_def
        getCachedCapture_def getCachedElement_def example_env_def example_store_def
        example_dom_def ELEMENT_CACHE_TTL_def widget_utils_isChartWidgetAvailable_def
        toLowerCase_def to_lower_char_def widget_utils_getChartElement_def setCachedCapture_def
        h W1_def)
  define R where "R = capture_success ?url (Canvas 1200 800)"
  define W where "W = \<lparr>chartElementCache = [''w1'' \<mapsto> \<lparr>el_element = 1, el_timestamp = 0\<rparr>],
            captureCache = [''w1'' \<mapsto> \<lparr>cap_result = R, cap_timestamp = 40\<rparr>],
            raster_calls = 1\<rparr>"
  have w: "world_with_capture = W"
    by (simp add: world_with_capture_def captureChartAsImage_def captureChartAsImage_try_def
        getCachedCapture_def initial_world_def example_env_def example_store_def example_dom_def
        isChartWidgetAvailable_def getChartElement_def lookupChartElement_def
        primarySelectors_def setCachedElement_def setCachedCapture_def hp W_def R_def)
  have c1: "captureChartAsImage W (example_env 4900 failing_raster) ''w1''
             professional_capture_options False = (Inr R, W)"
    by (simp add: captureChartAsImage_def captureChartAsImage_try_def getCachedCapture_def
        example_env_def CAPTURE_CACHE_TTL_def W_def)
  have c2: "captureChartAsImage W (example_env 5900 failing_raster) ''w1''
             professional_capture_options False =
      (Inr (capture_failure msg_capture_failed), W\<lparr>raster_calls := 2\<rparr>)"
    by (simp add: captureChartAsImage_def captureChartAsImage_try_def getCachedCapture_def
        example_env_def example_store_def example_dom_def CAPTURE_CACHE_TTL_def ELEMENT_CACHE_TTL_def
        isChartWidgetAvailable_def getChartElement_def n W_def)
  show ?thesis
    unfolding after_failure_def a1 a2 w
    by (simp add: b1 b2 c1 c2) (simp add: W1_def W_def R_def)
qed

text \<open>
  C4, amended: when a call of \<open>captureChartAsImage\<close> (either file) has returned a
  successful result, a second call for the same identifier with \<open>forceRefresh\<close> false,
  whose cache read comes less than 5000 ms after the time stamp of the cache entry of
  the identifier, returns that very result (the same \<open>dataUrl\<close>) and leaves the state
  as it is: no rasterisation is invoked, whatever the document now shows. A first call
  that is not served from the cache, finds the widget and its element, and whose
  rasterisation and \<open>toDataURL\<close> succeed, returns such a result after one
  rasterisation and stamps the entry with the time of its write.
\<close>

theorem C4_second_call_served_from_cache:
  "(fst (captureChartAsImage w env1 i options1 f1) = Inr r1 \<and> success r1 \<and>
    (\<forall>c. captureCache (snd (captureChartAsImage w env1 i options1 f1)) i = Some c \<longrightarrow>
          now_read env2 - cap_timestamp c < CAPTURE_CACHE_TTL) \<longrightarrow>
      captureChartAsImage (snd (captureChartAsImage w env1 i options1 f1)) env2 i options2 False =
        (Inr r1, snd (captureChartAsImage w env1 i options1 f1))) \<and>
   (fst (capture_captureChartAsImage w env1 i options1 f1) = Inr r1 \<and> success r1 \<and>
    (\<forall>c. captureCache (snd (capture_captureChartAsImage w env1 i options1 f1)) i = Some c \<longrightarrow>
          now_read env2 - cap_timestamp c < CAPTURE_CACHE_TTL) \<longrightarrow>
      capture_captureChartAsImage (snd (capture_captureChartAsImage w env1 i options1 f1)) env2 i options2 False =
        (Inr r1, snd (capture_captureChartAsImage w env1 i options1 f1))) \<and>
   ((f1 \<or> getCachedCapture w (now_read env1) i = None) \<and>
    isChartWidgetAvailable (env_store env1) i = Inr True \<and>
    fst (getChartElement w (env_dom env1) (now_lookup env1) i) = Some el \<and>
    htmlToCanvas (env_raster env1 el) options1 = Some c \<and>
    env_to_data_url env1 = Inr url \<longrightarrow>
      fst (captureChartAsImage w env1 i options1 f1) = Inr (capture_success url c) \<and>
      success (capture_success url c) \<and> dataUrl (capture_success url c) = Some url \<and>
      raster_calls (snd (captureChartAsImage w env1 i options1 f1)) = Suc (raster_calls w) \<and>
      captureCache (snd (captureChartAsImage w env1 i options1 f1)) i =
        Some \<lparr>cap_result = capture_success url c, cap_timestamp = now_write env1\<rparr> \<and>
      (now_read env2 - now_write env1 < CAPTURE_CACHE_TTL \<longrightarrow>
         captureChartAsImage (snd (captureChartAsImage w env1 i options1 f1)) env2 i options2 False =
           (Inr (capture_success url c), snd (captureChartAsImage w env1 i options1 f1)))) \<and>
   ((f1 \<or> getCachedCapture w (now_read env1) i = None) \<and>
    widget_utils_isChartWidgetAvailable (env_store env1) i \<and>
    fst (widget_utils_getChartElement w (env_dom env1) (now_lookup env1) i) = Inr (Some el) \<and>
    htmlToCanvas (env_raster env1 el) options1 = Some c \<and>
    env_to_data_url env1 = Inr url \<longrightarrow>
      fst (capture_captureChartAsImage w env1 i options1 f1) = Inr (capture_success url c) \<and>
      success (capture_success url c) \<and> dataUrl (capture_success url c) = Some url \<and>
      raster_calls (snd (capture_captureChartAsImage w env1 i options1 f1)) = Suc (raster_calls w) \<and>
      captureCache (snd (capture_captureChartAsImage w env1 i options1 f1)) i =
        Some \<lparr>cap_result = capture_success url c, cap_timestamp = now_write env1\<rparr> \<and>
      (now_read env2 - now_write env1 < CAPTURE_CACHE_TTL \<longrightarrow>
         capture_captureChartAsImage (snd (capture_captureChartAsImage w env1 i options1 f1)) env2 i
           options2 False =
           (Inr (capture_success url c), snd (capture_captureChartAsImage w env1 i options1 f1))))"
proof -
  obtain x w1 where c: "captureChartAsImage w env1 i options1 f1 = (x, w1)"
    by force
  obtain y v1 where d: "capture_captureChartAsImage w env1 i options1 f1 = (y, v1)"
    by force
  have a: "captureChartAsImage w1 env2 i options2 False = (Inr r, w1)"
    if h: "x = Inr r" "success r"
      "\<forall>c. captureCache w1 i = Some c \<longrightarrow> now_read env2 - cap_timestamp c < CAPTURE_CACHE_TTL"
    for r
  proof -
    have "served_from_cache w env1 i f1 r w1 \<or> captured_fresh w env1 options1 i r w1"
      using captureChartAsImage_outcomes[OF c] h(1,2)
      by (auto simp: refused_unrasterised_def rasterised_nothing_def data_url_threw_def
          capture_failure_simps)
    from second_call_hit[OF this h(3)] show ?thesis
      by (simp add: captureChartAsImage_def captureChartAsImage_try_def)
  qed
  have b: "capture_captureChartAsImage v1 env2 i options2 False = (Inr r, v1)"
    if h: "y = Inr r" "success r"
      "\<forall>c. captureCache v1 i = Some c \<longrightarrow> now_read env2 - cap_timestamp c < CAPTURE_CACHE_TTL"
    for r
  proof -
    have "served_from_cache w env1 i f1 r v1 \<or> captured_fresh w env1 options1 i r v1"
      using capture_captureChartAsImage_outcomes[OF d] h(1,2)
      by (auto simp: refused_unrasterised_def rasterised_nothing_def data_url_threw_def
          capture_failure_simps)
    from second_call_hit[OF this h(3)] show ?thesis
      by (simp add: capture_captureChartAsImage_def capture_captureChartAsImage_try_def)
  qed
  have s: "success (capture_success url c)" "dataUrl (capture_success url c) = Some url"
    by (simp_all add: capture_success_def)
  have f: "x = Inr (capture_success url c) \<and>
      raster_calls w1 = Suc (raster_calls w) \<and>
      captureCache w1 i = Some \<lparr>cap_result = capture_success url c, cap_timestamp = now_write env1\<rparr> \<and>
      (now_read env2 - now_write env1 < CAPTURE_CACHE_TTL \<longrightarrow>
         captureChartAsImage w1 env2 i options2 False = (Inr (capture_success url c), w1))"
    if h: "f1 \<or> getCachedCapture w (now_read env1) i = None"
      "isChartWidgetAvailable (env_store env1) i = Inr True"
      "fst (getChartElement w (env_dom env1) (now_lookup env1) i) = Some el"
      "htmlToCanvas (env_raster env1 el) options1 = Some c"
      "env_to_data_url env1 = Inr url"
  proof -
    note fc = fresh_capture[OF h]
    have x: "x = Inr (capture_success url c)" and w1: "w1 =
        setCachedCapture
          ((snd (getChartElement w (env_dom env1) (now_lookup env1) i))
             \<lparr>raster_calls := Suc (raster_calls w)\<rparr>)
          (now_write env1) i (capture_success url c)"
      using fc c by simp_all
    have r: "raster_calls w1 = Suc (raster_calls w)"
      unfolding w1 by (simp add: setCachedCapture_def)
    have e: "captureCache w1 i =
        Some \<lparr>cap_result = capture_success url c, cap_timestamp = now_write env1\<rparr>"
      unfolding w1 by (simp add: setCachedCapture_def)
    have "captureChartAsImage w1 env2 i options2 False = (Inr (capture_success url c), w1)"
      if "now_read env2 - now_write env1 < CAPTURE_CACHE_TTL"
      using a[of "capture_success url c"] x s(1) e that by simp
    with x r e show ?thesis by blast
  qed
  have g: "y = Inr (capture_success url c) \<and>
      raster_calls v1 = Suc (raster_calls w) \<and>
      captureCache v1 i = Some \<lparr>cap_result = capture_success url c, cap_timestamp = now_write env1\<rparr> \<and>
      (now_read env2 - now_write env1 < CAPTURE_CACHE_TTL \<longrightarrow>
         capture_captureChartAsImage v1 env2 i options2 False = (Inr (capture_success url c), v1))"
    if h: "f1 \<or> getCachedCapture w (now_read env1) i = None"
      "widget_utils_isChartWidgetAvailable (env_store env1) i"
      "fst (widget_utils_getChartElement w (env_dom env1) (now_lookup env1) i) = Inr (Some el)"
      "htmlToCanvas (env_raster env1 el) options1 = Some c"
      "env_to_data_url env1 = Inr url"
  proof -
    note fc = capture_fresh_capture[OF h]
    have y: "y = Inr (capture_success url c)" and v1: "v1 =
        setCachedCapture
          ((snd (widget_utils_getChartElement w (env_dom env1) (now_lookup env1) i))
             \<lparr>raster_calls := Suc (raster_calls w)\<rparr>)
          (now_write env1) i (capture_success url c)"
      using fc d by simp_all
    have r: "raster_calls v1 = Suc (raster_calls w)"
      unfolding v1 by (simp add: setCachedCapture_def)
    have e: "captureCache v1 i =
        Some \<lparr>cap_result = capture_success url c, cap_timestamp = now_write env1\<rparr>"
      unfolding v1 by (simp add: setCachedCapture_def)
    have "capture_captureChartAsImage v1 env2 i options2 False = (Inr (capture_success url c), v1)"
      if "now_read env2 - now_write env1 < CAPTURE_CACHE_TTL"
      using b[of "capture_success url c"] y s(1) e that by simp
    with y r e show ?thesis by blast
  qed
  show ?thesis
    unfolding c d fst_conv snd_conv using a b f g s by blast
qed

theorem C4_second_call_served_from_cache_witness:
  "isChartWidgetAvailable example_store ''w1'' = Inr True \<and>
   widget_utils_isChartWidgetAvailable example_store ''w1'' \<and>
   fst (getChartElement initial_world example_dom 0 ''w1'') = Some 1 \<and>
   fst (widget_utils_getChartElement initial_world example_dom 0 ''w1'') = Inr (Some 1) \<and>
   htmlToCanvas example_raster no_options = Some (Canvas 800 600) \<and>
   htmlToCanvas failing_raster no_options = None \<and>
   fst (captureChartAsImage initial_world (example_env 0 example_raster) ''w1'' no_options False) =
     Inr (capture_success ''data:image/png;base64,iVBORw0KGgo='' (Canvas 800 600)) \<and>
   raster_calls (snd (captureChartAsImage initial_world (example_env 0 example_raster) ''w1'' no_options
     False)) = 1 \<and>
   captureChartAsImage
     (snd (captureChartAsImage initial_world (example_env 0 example_raster) ''w1'' no_options False))
     (example_env 3000 failing_raster) ''w1'' no_options False =
   (Inr (capture_success ''data:image/png;base64,iVBORw0KGgo='' (Canvas 800 600)),
    snd (captureChartAsImage initial_world (example_env 0 example_raster) ''w1'' no_options False)) \<and>
   fst (capture_captureChartAsImage initial_world (example_env 0 example_raster) ''w1'' no_options False) =
     Inr (capture_success ''data:image/png;base64,iVBORw0KGgo='' (Canvas 800 600)) \<and>
   raster_calls (snd (capture_captureChartAsImage initial_world (example_env 0 example_raster) ''w1''
     no_options False)) = 1 \<and>
   capture_captureChartAsImage
     (snd (capture_captureChartAsImage initial_world (example_env 0 example_raster) ''w1'' no_options False))
     (example_env 3000 failing_raster) ''w1'' no_options False =
   (Inr (capture_success ''data:image/png;base64,iVBORw0KGgo='' (Canvas 800 600)),
    snd (capture_captureChartAsImage initial_world (example_env 0 example_raster) ''w1'' no_options False))"
proof -
  let ?r = "capture_success ''data:image/png;base64,iVBORw0KGgo='' (Canvas 800 600)"
  have h: "htmlToCanvas example_raster no_options = Some (Canvas 800 600)"
    by (simp add: htmlToCanvas_def example_raster_def no_options_def reuseExistingCanvas_def
        findLargestCanvas_def SUFFICIENT_AREA_def targetWidth_def targetHeight_def
        actualWidth_def actualHeight_def)
  have n: "htmlToCanvas failing_raster no_options = None"
    by (simp add: htmlToCanvas_def failing_raster_def no_options_def
        reuseExistingCanvas_def findLargestCanvas_def rasterizeContainer_def svgFallback_def)
  have av: "isChartWidgetAvailable example_store ''w1'' = Inr True"
    by (simp add: isChartWidgetAvailable_def example_store_def)
  have av': "widget_utils_isChartWidgetAvailable example_store ''w1''"
    by (simp add: widget_utils_isChartWidgetAvailable_def example_store_def toLowerCase_def
        to_lower_char_def)
  have el: "fst (getChartElement initial_world example_dom 0 ''w1'') = Some 1"
    by (simp add: getChartElement_def lookupChartElement_def primarySelectors_def
        initial_world_def example_dom_def)
  have el': "fst (widget_utils_getChartElement initial_world example_dom 0 ''w1'') = Inr (Some 1)"
    by (simp add: widget_utils_getChartElement_def getCachedElement_def chartContainerOf_def
        initial_world_def example_dom_def)
  have e: "env_store (example_env 0 example_raster) = example_store"
    "env_dom (example_env 0 example_raster) = example_dom"
    "now_lookup (example_env 0 example_raster) = 0"
    "now_read (example_env 0 example_raster) = 0"
    "now_write (example_env 0 example_raster) = 40"
    "env_raster (example_env 0 example_raster) 1 = example_raster"
    "env_to_data_url (example_env 0 example_raster) = Inr ''data:image/png;base64,iVBORw0KGgo=''"
    "now_read (example_env 3000 failing_raster) = 3000"
    by (simp_all add: example_env_def)
  have m: "getCachedCapture initial_world 0 ''w1'' = None"
    by (simp add: getCachedCapture_def initial_world_def)
  have t: "(3000::int) - 40 < CAPTURE_CACHE_TTL"
    by (simp add: CAPTURE_CACHE_TTL_def)
  have i: "raster_calls initial_world = 0"
    by (simp add: initial_world_def)
  show ?thesis
    using C4_second_call_served_from_cache
      [where w = initial_world and ?env1.0 = "example_env 0 example_raster" and i = "''w1''"
         and ?options1.0 = no_options and ?f1.0 = False and el = 1 and c = "Canvas 800 600"
         and url = "''data:image/png;base64,iVBORw0KGgo=''"
         and ?env2.0 = "example_env 3000 failing_raster" and ?options2.0 = no_options]
      h n av av' el el' m t
    unfolding e i by simp
qed

section \<open>Aggregation of the records\<close>


lemma keys_map_set:
  "map fst (map_set m k v) = (if k \<in> set (map fst m) then map fst m else map fst m @ [k])"
  by (induction m) (auto simp: rev_image_eqI)

lemma distinct_map_set: "distinct (map fst m) \<Longrightarrow> distinct (map fst (map_set m k v))"
  by (simp add: keys_map_set)

lemma aggregate_step:
  "aggregate pf cf vf (r # rest) m =
     (if has_category (field r cf)
      then aggregate pf cf vf rest
             (map_set m (field r cf) (number_add (lookup0 m (field r cf)) (raw_value pf vf r)))
      else aggregate pf cf vf rest m)"
  by (simp add: has_category_def lookup0_def raw_value_def Let_def)

lemma aggregate_distinct:
  "distinct (map fst m) \<Longrightarrow> distinct (map fst (aggregate pf cf vf recs m))"
proof (induction recs arbitrary: m)
  case Nil
  then show ?case by simp
next
  case (Cons r rest)
  then show ?case
    by (simp add: aggregate_step distinct_map_set del: aggregate.simps)
qed






section \<open>Sums of integers\<close>










section \<open>The sort\<close>

lemma set_insert_by: "set (insert_by cmp x ys) = insert x (set ys)"
  by (induction ys) auto

lemma set_array_sort: "set (array_sort cmp xs) = set xs"
  by (induction xs) (simp_all add: set_insert_by)



lemma distinct_insert_by:
  "distinct (map g (insert_by cmp x ys)) = (g x \<notin> g ` set ys \<and> distinct (map g ys))"
  by (induction ys) (auto simp: set_insert_by)

lemma distinct_array_sort: "distinct (map g (array_sort cmp xs)) = distinct (map g xs)"
  by (induction xs) (simp_all add: distinct_insert_by set_array_sort)





section \<open>The result of the query-engine strategy\<close>

lemma mk_record_eq:
  "(\<lambda>(c, v). \<lparr>category = c, cd_value = v, cd_label = Some (String ns c), cd_color = None\<rparr>) =
     mk_record ns"
  by (rule ext) (simp add: mk_record_def split: prod.splits)

lemma chartData_of_records_alt:
  "chartData_of_records pf ns cf vf recs =
     array_sort (compare_category ns) (map (mk_record ns) (aggregate pf cf vf recs []))"
  by (simp only: chartData_of_records_def mk_record_eq)

lemma map_category_mk_record: "map category (map (mk_record ns) xs) = map fst xs"
  by (induction xs) (simp_all add: mk_record_def)

lemma chartData_distinct: "distinct (map category (chartData_of_records pf ns cf vf recs))"
proof -
  have "distinct (map fst (aggregate pf cf vf recs []))"
    by (rule aggregate_distinct) simp
  then have "distinct (map category (map (mk_record ns) (aggregate pf cf vf recs [])))"
    by (simp only: map_category_mk_record)
  then show ?thesis
    by (simp only: chartData_of_records_alt distinct_array_sort)
qed













section \<open>The aggregation, evaluated and in general\<close>

lemma numberToString_digits:
  "numberToString ns (Fin 2) = ''2''" "numberToString ns (Fin 10) = ''10''"
  "numberToString ns (Fin 2020) = ''2020''" "numberToString ns (Fin 2021) = ''2021''"
  by (simp_all add: numberToString_def string_of_int_def string_of_nat_eval)

lemma sales_chartData:
  "chartData_of_records parse_nothing ns (Some ''year'') (Some ''sales'') sales_records =
     [\<lparr>category = JNum (Fin 2020), cd_value = Fin 15, cd_label = Some ''2020'', cd_color = None\<rparr>,
      \<lparr>category = JNum (Fin 2021), cd_value = Fin 7, cd_label = Some ''2021'', cd_color = None\<rparr>]"
proof -
  have a: "aggregate parse_nothing (Some ''year'') (Some ''sales'') sales_records [] =
             [(JNum (Fin 2020), Fin 15), (JNum (Fin 2021), Fin 7)]"
    by (simp add: sales_records_def field_def parseFloat_def or_zero_def round_double_Ints)
  show ?thesis
    unfolding chartData_of_records_def a
    by (simp add: compare_category_def String_def numberToString_digits subtract_def
        round_double_Ints)
qed

lemma sales_result:
  "extractChartData parse_nothing ns (Some ''year'') (Some ''sales'') sources sales_records =
     \<lparr>ex_success = True,
      ex_data = Some
        [\<lparr>category = JNum (Fin 2020), cd_value = Fin 15, cd_label = Some ''2020'', cd_color = None\<rparr>,
         \<lparr>category = JNum (Fin 2021), cd_value = Fin 7, cd_label = Some ''2021'', cd_color = None\<rparr>],
      ex_categoryField = Some ''year'', ex_valueField = Some ''sales'',
      ex_totalRecords = Some 3, ex_error = None\<rparr>"
proof -
  have f: "detect_category_field (Some ''year'') (hd sales_records) = Some ''year''"
          "detect_value_field parse_nothing (Some ''sales'') (hd sales_records) = Some ''sales''"
    by (simp_all add: detect_category_field_def detect_value_field_def sales_records_def)
  have "extractChartData parse_nothing ns (Some ''year'') (Some ''sales'') sources sales_records =
     \<lparr>ex_success = True,
      ex_data = Some (chartData_of_records parse_nothing ns (Some ''year'') (Some ''sales'') sales_records),
      ex_categoryField = Some ''year'', ex_valueField = Some ''sales'',
      ex_totalRecords = Some 3, ex_error = None\<rparr>"
    using f by (simp add: extractChartData_def sales_records_def Let_def)
  then show ?thesis
    by (simp only: sales_chartData)
qed




section \<open>Distinct categories\<close>

lemma categories_legend_records:
  "map category (legend_records pf items) =
     map JStr (filter (\<lambda>s. s \<noteq> []) (map legend_label items))"
  by (simp add: legend_records_def filter_map comp_def)

lemma snd_filter_zip_gen:
  "length ns = length xs \<Longrightarrow>
   map snd (filter (\<lambda>(index, t). P t) (zip ns xs)) = filter P xs"
  by (induction ns xs rule: list_induct2) auto

lemma snd_filter_zip:
  "map snd (filter (\<lambda>(index, t). P t) (zip [0..<length xs] xs)) = filter P xs"
  by (rule snd_filter_zip_gen) simp

lemma categories_shadow_records:
  "map category (shadow_records texts) = map JStr (filter (\<lambda>s. s \<noteq> []) texts)"
proof -
  have "map category (shadow_records texts) =
        map JStr (map snd (filter (\<lambda>(index, t). t \<noteq> []) (zip [0..<length texts] texts)))"
    by (simp add: shadow_records_def comp_def case_prod_beta)
  then show ?thesis by (simp only: snd_filter_zip)
qed

lemma categories_data_element_records:
  "map category (data_element_records pf els) =
     map JStr (filter (\<lambda>s. s \<noteq> []) (map data_element_category els))"
proof -
  have "map category (data_element_records pf els) =
        map (JStr \<circ> data_element_category)
          (map snd (filter (\<lambda>(index, el). data_element_category el \<noteq> []) (zip [0..<length els] els)))"
    by (simp add: data_element_records_def comp_def case_prod_beta)
  also have "\<dots> = map (JStr \<circ> data_element_category) (filter (\<lambda>el. data_element_category el \<noteq> []) els)"
    by (simp only: snd_filter_zip)
  finally show ?thesis
    by (simp add: filter_map comp_def)
qed

lemma categories_dom_chartData:
  "map category (dom_chartData pf cd) = map JStr (harvested_labels cd)"
proof -
  have e1: "(legend_records pf (legendItems cd) = []) =
            (filter (\<lambda>s. s \<noteq> []) (map legend_label (legendItems cd)) = [])"
    using categories_legend_records[of pf "legendItems cd"]
    by (metis map_is_Nil_conv)
  have e2: "(shadow_records texts = []) = (filter (\<lambda>s. s \<noteq> []) texts = [])" for texts
    using categories_shadow_records[of texts]
    by (metis map_is_Nil_conv)
  show ?thesis
    by (simp add: dom_chartData_def harvested_labels_def Let_def e1 e2
        categories_legend_records categories_shadow_records categories_data_element_records
        split: option.splits)
qed

lemma extractChartDataFromDOM_categories:
  assumes "ex_success (fst (extractChartDataFromDOM pf w d now st view i))"
  shows "\<exists>el. fst (getChartElement w d now i) = Some el \<and>
           result_categories (fst (extractChartDataFromDOM pf w d now st view i)) =
             map JStr (harvested_labels (view el))"
  using assms
  by (auto simp: extractChartDataFromDOM_def extraction_failure_def result_categories_def
      categories_dom_chartData Let_def
      split: prod.splits option.splits sum.splits if_splits)

lemma extractChartData_distinct:
  "distinct (result_categories (extractChartData pf ns cf vf sources recs))"
  by (simp add: extractChartData_def result_categories_def extraction_failure_def
      chartData_distinct Let_def split: list.splits)

text \<open>
  C3, as the specification states it, fails for the DOM-parsing strategy: a legend
  that shows the label \<open>A\<close> on two items gives a successful result with the category
  \<open>A\<close> twice; the combined extraction returns it when the query-engine strategy found
  nothing.
\<close>

theorem C3_counterexample:
  "ex_success (fst (extractChartDataFromDOM parse_nothing initial_world example_dom 0 example_store
      (\<lambda>e. twice_A) ''w1'')) \<and>
   result_categories (fst (extractChartDataFromDOM parse_nothing initial_world example_dom 0 example_store
      (\<lambda>e. twice_A) ''w1'')) = [JStr ''A'', JStr ''A''] \<and>
   \<not> distinct (result_categories (fst (extractChartDataFromDOM parse_nothing initial_world example_dom 0
      example_store (\<lambda>e. twice_A) ''w1''))) \<and>
   fst (extractChartDataComplete parse_nothing initial_world example_dom 0 example_store (\<lambda>e. twice_A)
      (extraction_failure ''none'') None None ''w1'') =
     Inr (fst (extractChartDataFromDOM parse_nothing initial_world example_dom 0 example_store
      (\<lambda>e. twice_A) ''w1''))"
proof -
  have g: "getChartElement initial_world example_dom 0 ''w1'' =
             (Some 1, setCachedElement initial_world 0 ''w1'' 1)"
    by (simp add: getChartElement_def lookupChartElement_def primarySelectors_def
        initial_world_def example_dom_def)
  have l: "legend_records parse_nothing (legendItems twice_A) =
     [\<lparr>category = JStr ''A'', cd_value = Fin 0, cd_label = Some ''A'', cd_color = Some ''#5A9BD5''\<rparr>,
      \<lparr>category = JStr ''A'', cd_value = Fin 0, cd_label = Some ''A'', cd_color = Some ''#5A9BD5''\<rparr>]"
    by (simp add: legend_records_def twice_A_def legend_label_def text_or_def legend_value_def
        legend_color_def parseFloat_def parse_nothing_def or_zero_def)
  have c: "dom_chartData parse_nothing twice_A =
     [\<lparr>category = JStr ''A'', cd_value = Fin 0, cd_label = Some ''A'', cd_color = Some ''#5A9BD5''\<rparr>,
      \<lparr>category = JStr ''A'', cd_value = Fin 0, cd_label = Some ''A'', cd_color = Some ''#5A9BD5''\<rparr>]"
    by (simp add: dom_chartData_def l)
  have r: "extractChartDataFromDOM parse_nothing initial_world example_dom 0 example_store
      (\<lambda>e. twice_A) ''w1'' =
     (\<lparr>ex_success = True, ex_data = Some (dom_chartData parse_nothing twice_A),
       ex_categoryField = None, ex_valueField = None, ex_totalRecords = Some 2, ex_error = None\<rparr>,
      setCachedElement initial_world 0 ''w1'' 1)"
    by (simp add: extractChartDataFromDOM_def g example_store_def getChartWidgetInfo_def c)
  show ?thesis
    unfolding extractChartDataComplete_def r
    by (simp add: result_categories_def c has_data_def extraction_failure_def)
qed

text \<open>
  C3, amended: the categories of every result of the query-engine strategy are pairwise
  distinct, and so are those of the combined extraction whenever the query-engine
  strategy has found data, for it then returns that result. A successful result of
  the DOM-parsing strategy lists the labels the element shows (of the legend items,
  else of the shadow legend, else of the data elements; the empty ones left out) in
  document order, one record for each: its categories are distinct exactly when those
  labels are.
\<close>

theorem C3_distinct_categories:
  "distinct (result_categories (extractChartData pf ns cf vf sources recs)) \<and>
   (has_data q \<longrightarrow>
      extractChartDataComplete pf w d now st view q outputDs useDs i = (Inr q, w)) \<and>
   (ex_success (fst (extractChartDataFromDOM pf w d now st view i)) \<longrightarrow>
      (\<exists>el. fst (getChartElement w d now i) = Some el \<and>
         result_categories (fst (extractChartDataFromDOM pf w d now st view i)) =
           map JStr (harvested_labels (view el)) \<and>
         distinct (result_categories (fst (extractChartDataFromDOM pf w d now st view i))) =
           distinct (harvested_labels (view el))))"
proof (intro conjI impI)
  show "distinct (result_categories (extractChartData pf ns cf vf sources recs))"
    by (rule extractChartData_distinct)
  show "extractChartDataComplete pf w d now st view q outputDs useDs i = (Inr q, w)"
    if "has_data q"
    using that by (simp add: extractChartDataComplete_def)
  show "\<exists>el. fst (getChartElement w d now i) = Some el \<and>
         result_categories (fst (extractChartDataFromDOM pf w d now st view i)) =
           map JStr (harvested_labels (view el)) \<and>
         distinct (result_categories (fst (extractChartDataFromDOM pf w d now st view i))) =
           distinct (harvested_labels (view el))"
    if s: "ex_success (fst (extractChartDataFromDOM pf w d now st view i))"
  proof -
    from extractChartDataFromDOM_categories[OF s] obtain el where
      el: "fst (getChartElement w d now i) = Some el"
          "result_categories (fst (extractChartDataFromDOM pf w d now st view i)) =
             map JStr (harvested_labels (view el))"
      by blast
    have "distinct (map JStr (harvested_labels (view el))) = distinct (harvested_labels (view el))"
      by (simp add: distinct_map inj_on_def)
    with el show ?thesis by auto
  qed
qed

theorem C3_distinct_categories_witness:
  "result_categories (extractChartData parse_nothing print_nothing (Some ''year'') (Some ''sales'')
      ''OutputDS: none'' sales_records) = [JNum (Fin 2020), JNum (Fin 2021)] \<and>
   distinct (result_categories (extractChartData parse_nothing print_nothing (Some ''year'') (Some ''sales'')
      ''OutputDS: none'' sales_records)) \<and>
   has_data (extractChartData parse_nothing print_nothing (Some ''year'') (Some ''sales'')
      ''OutputDS: none'' sales_records) \<and>
   extractChartDataComplete parse_nothing initial_world example_dom 0 example_store (\<lambda>e. twice_A)
      (extractChartData parse_nothing print_nothing (Some ''year'') (Some ''sales'') ''OutputDS: none''
         sales_records)
      None None ''w1'' =
     (Inr (extractChartData parse_nothing print_nothing (Some ''year'') (Some ''sales'') ''OutputDS: none''
             sales_records),
      initial_world)"
proof -
  have c: "result_categories (extractChartData parse_nothing print_nothing (Some ''year'') (Some ''sales'')
      ''OutputDS: none'' sales_records) = [JNum (Fin 2020), JNum (Fin 2021)]"
    unfolding sales_result by (simp add: result_categories_def)
  have h: "has_data (extractChartData parse_nothing print_nothing (Some ''year'') (Some ''sales'')
      ''OutputDS: none'' sales_records)"
    unfolding sales_result by (simp add: has_data_def)
  show ?thesis
    using C3_distinct_categories
      [where pf = parse_nothing and ns = print_nothing and cf = "Some ''year''" and vf = "Some ''sales''"
         and sources = "''OutputDS: none''" and recs = sales_records
         and q = "extractChartData parse_nothing print_nothing (Some ''year'') (Some ''sales'')
                    ''OutputDS: none'' sales_records"
         and w = initial_world and d = example_dom and now = 0 and st = example_store
         and view = "\<lambda>e. twice_A" and outputDs = None and useDs = None and i = "''w1''"]
      c h
    by simp
qed

section \<open>The timeout of the professional layout\<close>

text \<open>
  C5 fails in the code when the capture is served from the cache. With a timeout of
  1 ms the timer fires during the first two notifications, before the capture is
  started: the capture does not resolve before the timeout expires. The capture then
  returns its cached result at once, its promise wins the race over the rejected
  timeout promise, and the document is composed and returned, with no error stage.
  The same call with \<open>forceRefresh\<close>, whose capture rasterises, is aborted as C5 says.
\<close>

theorem C5_expired_timeout_returns_document:
  "capture_unresolved_at_expiry world_with_capture (late_env True failing_raster) ''w1''
     (short_timeout False) \<and>
   fst (generateProfessionalChartPdf world_with_capture (late_env True failing_raster) ''w1''
          (short_timeout False)) =
     Some \<lparr>pdf_image = Some ''data:image/png;base64,iVBORw0KGgo='', pdf_legend = [(0, 0), (1, 0)]\<rparr> \<and>
   fst (snd (generateProfessionalChartPdf world_with_capture (late_env True failing_raster) ''w1''
          (short_timeout False))) =
     [ev_init, ev_capture_start, ev_capture_done, ev_data, ev_pdf, ev_image, ev_image_added,
      ev_legend, ev_footer, ev_complete] \<and>
   fst (generateProfessionalChartPdf world_with_capture (late_env True example_raster) ''w1''
          (short_timeout True)) = None \<and>
   fst (snd (generateProfessionalChartPdf world_with_capture (late_env True example_raster) ''w1''
          (short_timeout True))) =
     [ev_init, ev_capture_start, (''error'', - 1, msg_timeout 1)]"
proof -
  define R where "R = capture_success ''data:image/png;base64,iVBORw0KGgo='' (Canvas 1200 800)"
  define W where "W = \<lparr>chartElementCache = [''w1'' \<mapsto> \<lparr>el_element = 1, el_timestamp = 0\<rparr>],
            captureCache = [''w1'' \<mapsto> \<lparr>cap_result = R, cap_timestamp = 40\<rparr>],
            raster_calls = 1\<rparr>"
  define D where "D = \<lparr>ex_success = True, ex_data = Some (dom_chartData parse_nothing twice_A),
                 ex_categoryField = None, ex_valueField = None, ex_totalRecords = Some 2,
                 ex_error = None\<rparr>"
  have h: "htmlToCanvas example_raster professional_capture_options = Some (Canvas 1200 800)"
    by (simp add: htmlToCanvas_def example_raster_def professional_capture_options_def
        reuseExistingCanvas_def findLargestCanvas_def SUFFICIENT_AREA_def targetWidth_def
        targetHeight_def actualWidth_def actualHeight_def)
  have w: "world_with_capture = W"
    by (simp add: world_with_capture_def captureChartAsImage_def captureChartAsImage_try_def
        getCachedCapture_def initial_world_def example_env_def example_store_def example_dom_def
        isChartWidgetAvailable_def getChartElement_def lookupChartElement_def
        primarySelectors_def setCachedElement_def setCachedCapture_def h W_def R_def)
  have c: "captureChartAsImage W (example_env 1000 failing_raster) ''w1''
             professional_capture_options False = (Inr R, W)"
    by (simp add: captureChartAsImage_def captureChartAsImage_try_def getCachedCapture_def
        example_env_def CAPTURE_CACHE_TTL_def W_def)
  have e: "pe_capture (late_env True failing_raster) = example_env 1000 failing_raster"
          "po_forceRefresh (short_timeout False) = False"
    by (simp_all add: late_env_def short_timeout_def)
  have p: "\<not> capture_pending W (late_env True failing_raster) ''w1'' (short_timeout False)"
    unfolding capture_pending_def e c by simp
  have g: "getChartElement W example_dom 1100 ''w1'' = (Some 1, W)"
    by (simp add: getChartElement_def example_dom_def ELEMENT_CACHE_TTL_def W_def)
  have l: "legend_records parse_nothing (legendItems twice_A) =
     [\<lparr>category = JStr ''A'', cd_value = Fin 0, cd_label = Some ''A'', cd_color = Some ''#5A9BD5''\<rparr>,
      \<lparr>category = JStr ''A'', cd_value = Fin 0, cd_label = Some ''A'', cd_color = Some ''#5A9BD5''\<rparr>]"
    by (simp add: legend_records_def twice_A_def legend_label_def text_or_def legend_value_def
        legend_color_def parseFloat_def parse_nothing_def or_zero_def)
  have d: "dom_chartData parse_nothing twice_A =
     [\<lparr>category = JStr ''A'', cd_value = Fin 0, cd_label = Some ''A'', cd_color = Some ''#5A9BD5''\<rparr>,
      \<lparr>category = JStr ''A'', cd_value = Fin 0, cd_label = Some ''A'', cd_color = Some ''#5A9BD5''\<rparr>]"
    by (simp add: dom_chartData_def l)
  have hd: "has_data D" "ex_data D = Some (dom_chartData parse_nothing twice_A)"
    by (simp_all add: has_data_def D_def d)
  have x: "extractChartDataComplete parse_nothing W example_dom 1100 example_store (\<lambda>e. twice_A)
             (extraction_failure ''none'') None None ''w1'' = (Inr D, W)"
    unfolding extractChartDataComplete_def extractChartDataFromDOM_def g
    by (simp add: example_store_def getChartWidgetInfo_def d has_data_def extraction_failure_def D_def)
  have "\<lceil>(1::real) / 2\<rceil> = 1"
    by (rule ceiling_unique) simp_all
  then have cells: "legend_cells 2 4 = [(0, 0), (1, 0)]"
    by (simp add: legend_cells_def itemsPerColumn_def columnIndex_def rowIndex_def upt_rec)
  have cells': "legend_cells (Suc (Suc 0)) 4 = [(0, 0), (1, 0)]"
    using cells by (simp add: numeral_2_eq_2)
  have env: "pe_parseFloat (late_env True failing_raster) = parse_nothing"
    "env_dom (example_env 1000 failing_raster) = example_dom"
    "pe_now_extract (late_env True failing_raster) = 1100"
    "env_store (example_env 1000 failing_raster) = example_store"
    "pe_view (late_env True failing_raster) = (\<lambda>e. twice_A)"
    "pe_query_result (late_env True failing_raster) = extraction_failure ''none''"
    "pe_outputDs (late_env True failing_raster) = None"
    "pe_useDs (late_env True failing_raster) = None"
    "pe_jspdf_throws (late_env True failing_raster) = None"
    "pe_timer_fired (late_env True failing_raster) = True"
    by (simp_all add: late_env_def example_env_def)
  have comp: "compose_document (short_timeout False) (late_env True failing_raster) evs R D W =
     (Some \<lparr>pdf_image = Some ''data:image/png;base64,iVBORw0KGgo='', pdf_legend = [(0, 0), (1, 0)]\<rparr>,
      evs @ [ev_image, ev_image_added, ev_legend, ev_footer, ev_complete], W)" for evs
    by (simp add: compose_document_def env hd d cells' R_def capture_success_def short_timeout_def
        notify_def)
  have gi: "\<exists>i. getChartWidgetInfo example_store ''w1'' = Inr i"
    by (simp add: getChartWidgetInfo_def example_store_def)
  have n: "notify (short_timeout False) [] evs = evs" for evs
    by (simp add: notify_def short_timeout_def)
  have doc: "generateProfessionalChartPdf W (late_env True failing_raster) ''w1'' (short_timeout False) =
     (Some \<lparr>pdf_image = Some ''data:image/png;base64,iVBORw0KGgo='', pdf_legend = [(0, 0), (1, 0)]\<rparr>,
      [ev_init, ev_capture_start, ev_capture_done, ev_data, ev_pdf, ev_image, ev_image_added,
       ev_legend, ev_footer, ev_complete], W)"
    unfolding generateProfessionalChartPdf_def e c env x
    using p gi by (auto simp add: timeout_wins_race_def x comp n)
  have e': "pe_capture (late_env True example_raster) = example_env 1000 example_raster"
           "po_forceRefresh (short_timeout True) = True"
           "pe_timer_fired (late_env True example_raster) = True"
    by (simp_all add: late_env_def short_timeout_def)
  have c': "raster_calls (snd (captureChartAsImage W (example_env 1000 example_raster) ''w1''
             professional_capture_options True)) = 2"
    by (simp add: captureChartAsImage_def captureChartAsImage_try_def
        example_env_def example_store_def example_dom_def ELEMENT_CACHE_TTL_def
        isChartWidgetAvailable_def getChartElement_def lookupChartElement_def
        setCachedCapture_def h W_def)
  have t: "timeout_wins_race W (late_env True example_raster) ''w1'' (short_timeout True)"
    unfolding timeout_wins_race_def capture_pending_def e' c' by (simp add: W_def)
  have ab: "fst (generateProfessionalChartPdf W (late_env True example_raster) ''w1'' (short_timeout True)) =
              None"
    "fst (snd (generateProfessionalChartPdf W (late_env True example_raster) ''w1'' (short_timeout True))) =
       [ev_init, ev_capture_start, (''error'', - 1, msg_timeout 1)]"
    using t
    by (simp_all add: generateProfessionalChartPdf_def pdf_failed_def notify_def ev_error_def
        extraction_message_of_def short_timeout_def split: prod.splits)
  show ?thesis
    unfolding w doc using ab by (simp add: capture_unresolved_at_expiry_def env)
qed

end
